theory Spec2Isabelle
  imports Main "HOL-Library.Word"
begin

unbundle bit_operations_syntax

section \<open>Data model of the Ingenic JZ47xx KMS driver\<close>

text \<open>
  A shallow embedding of \<^verbatim>\<open>drivers/gpu/drm/ingenic/ingenic-drm.c\<close>. C's
  \<^verbatim>\<open>unsigned int\<close> and \<^verbatim>\<open>u32\<close> are \<open>32 word\<close>; an \<^verbatim>\<open>int\<close>
  field that the driver only feeds into unsigned arithmetic is kept as the 32-bit pattern it
  converts to. Return codes are \<open>int\<close>, 0 for success and a negative errno otherwise.
\<close>

type_synonym u32 = "32 word"

text \<open>The symbolic register offsets \<^verbatim>\<open>JZ_REG_LCD_*\<close> used by the driver.\<close>

datatype reg =
    JZ_REG_LCD_CFG | JZ_REG_LCD_VSYNC | JZ_REG_LCD_HSYNC | JZ_REG_LCD_VAT
  | JZ_REG_LCD_DAH | JZ_REG_LCD_DAV | JZ_REG_LCD_PS | JZ_REG_LCD_CLS
  | JZ_REG_LCD_SPL | JZ_REG_LCD_REV | JZ_REG_LCD_CTRL | JZ_REG_LCD_STATE
  | JZ_REG_LCD_IID | JZ_REG_LCD_DA0 | JZ_REG_LCD_SA0 | JZ_REG_LCD_FID0
  | JZ_REG_LCD_CMD0 | JZ_REG_LCD_DA1 | JZ_REG_LCD_SA1 | JZ_REG_LCD_FID1
  | JZ_REG_LCD_CMD1 | JZ_REG_LCD_OSDC | JZ_REG_LCD_OSDCTRL | JZ_REG_LCD_IPUR
  | JZ_REG_LCD_XYP0 | JZ_REG_LCD_XYP1 | JZ_REG_LCD_SIZE0 | JZ_REG_LCD_SIZE1

text \<open>
  The bit masks, field offsets and pixel-format codes come from \<^verbatim>\<open>ingenic-drm.h\<close> and
  \<^verbatim>\<open>drm_fourcc.h\<close>, which are not part of the source tree examined here. They are
  parameters of the model: every function below takes the record \<open>h\<close> of these constants,
  and every general theorem holds for all of their values.
\<close>

record jz_hdr =
  JZ_LCD_VSYNC_VPS_OFFSET :: nat
  JZ_LCD_VSYNC_VPE_OFFSET :: nat
  JZ_LCD_HSYNC_HPS_OFFSET :: nat
  JZ_LCD_HSYNC_HPE_OFFSET :: nat
  JZ_LCD_VAT_HT_OFFSET :: nat
  JZ_LCD_VAT_VT_OFFSET :: nat
  JZ_LCD_DAH_HDS_OFFSET :: nat
  JZ_LCD_DAH_HDE_OFFSET :: nat
  JZ_LCD_DAV_VDS_OFFSET :: nat
  JZ_LCD_DAV_VDE_OFFSET :: nat
  JZ_LCD_CTRL_OFUP :: u32
  JZ_LCD_CTRL_BURST_16 :: u32
  JZ_LCD_CTRL_ENABLE :: u32
  JZ_LCD_CTRL_DISABLE :: u32
  JZ_LCD_CTRL_RGB555 :: u32
  JZ_LCD_CTRL_BPP_15_16 :: u32
  JZ_LCD_CTRL_BPP_18_24 :: u32
  JZ_LCD_CTRL_BPP_MASK :: u32
  JZ_LCD_STATE_EOF_IRQ :: u32
  JZ_LCD_STATE_DISABLED :: u32
  JZ_LCD_CMD_EOF_IRQ :: u32
  JZ_LCD_OSDC_F0EN :: u32
  JZ_LCD_OSDC_F1EN :: u32
  JZ_LCD_OSDCTRL_IPU :: u32
  JZ_LCD_OSDCTRL_RGB555 :: u32
  JZ_LCD_OSDCTRL_BPP_15_16 :: u32
  JZ_LCD_OSDCTRL_BPP_18_24 :: u32
  JZ_LCD_OSDCTRL_BPP_MASK :: u32
  JZ_LCD_XYP01_XPOS_LSB :: nat
  JZ_LCD_XYP01_YPOS_LSB :: nat
  JZ_LCD_SIZE01_WIDTH_LSB :: nat
  JZ_LCD_SIZE01_HEIGHT_LSB :: nat
  JZ_LCD_IPUR_IPUREN :: u32
  JZ_LCD_IPUR_IPUR_LSB :: nat
  DRM_FORMAT_XRGB1555 :: u32
  DRM_FORMAT_RGB565 :: u32
  DRM_FORMAT_XRGB8888 :: u32

text \<open>
  \<^verbatim>\<open>struct ingenic_dma_hwdesc\<close>: one hardware DMA descriptor. The C field \<^verbatim>\<open>id\<close>
  is \<open>desc_id\<close> here.
\<close>

record ingenic_dma_hwdesc =
  "next" :: u32
  addr :: u32
  desc_id :: u32
  cmd :: u32

text \<open>\<^verbatim>\<open>struct jz_soc_info\<close>.\<close>

record jz_soc_info =
  needs_dev_clk :: bool
  has_osd :: bool
  max_width :: u32
  max_height :: u32

text \<open>
  The fields of \<^verbatim>\<open>struct drm_display_mode\<close> that the driver reads. The structure is
  declared by the DRM core; its geometry fields are integers that the driver converts to
  \<^verbatim>\<open>unsigned int\<close> before computing with them.
\<close>

record drm_display_mode =
  clock :: u32
  hdisplay :: u32
  hsync_start :: u32
  hsync_end :: u32
  htotal :: u32
  vdisplay :: u32
  vsync_start :: u32
  vsync_end :: u32
  vtotal :: u32

text \<open>
  Everything the driver does to the outside world is kept in order in a trace: register
  accesses through the regmap, clock requests, and calls into the vertical-blank subsystem.
  A pending vertical-blank event is identified by a number.
\<close>

type_synonym vblank_event = nat

datatype effect =
    RegWrite reg u32
  | RegUpdateBits reg u32 u32
  | ClkSetRate u32
  | DmaCacheSync u32 u32
  | VblankOn
  | VblankOff
  | SpinLockIrq
  | SpinUnlockIrq
  | VblankGet
  | ArmVblankEvent vblank_event
  | SendVblankEvent vblank_event
  | HandleVblank

text \<open>
  \<^verbatim>\<open>struct ingenic_drm\<close>, the driver's private state. \<open>regmap\<close> is the content of
  the register block behind \<^verbatim>\<open>priv->map\<close>; \<open>ipu_plane\<close> tells whether the pointer of
  that name is non-NULL; \<open>pix_clk\<close> is the answer of \<^verbatim>\<open>clk_round_rate\<close> on the pixel
  clock; \<open>dma_hwdesc i\<close> is the descriptor that \<^verbatim>\<open>priv->dma_hwdesc[i]\<close> points to (the
  two descriptors are separate allocations) and \<open>dma_hwdesc_phys i\<close> its bus address, which
  is 32 bits wide on these SoCs. \<open>cached_gem_buf\<close> is the module parameter
  \<^verbatim>\<open>ingenic_drm_cached_gem_buf\<close>. The state of the vertical-blank subsystem (events armed
  for the next frame, events already sent, the frame counter) is carried along as well.
\<close>

record ingenic_drm =
  soc_info :: jz_soc_info
  ipu_plane :: bool
  panel_is_sharp :: bool
  cached_gem_buf :: bool
  pix_clk :: "u32 \<Rightarrow> int"
  regmap :: "reg \<Rightarrow> u32"
  dma_hwdesc :: "nat \<Rightarrow> ingenic_dma_hwdesc"
  dma_hwdesc_phys :: "nat \<Rightarrow> u32"
  vblank_armed :: "vblank_event list"
  vblank_sent :: "vblank_event list"
  vblank_count :: nat
  trace :: "effect list"

section \<open>Register interface\<close>

text \<open>\<^verbatim>\<open>ingenic_drm_writeable_reg\<close>, lines 78-92.\<close>

fun ingenic_drm_writeable_reg :: "reg \<Rightarrow> bool" where
  "ingenic_drm_writeable_reg JZ_REG_LCD_IID = False"
| "ingenic_drm_writeable_reg JZ_REG_LCD_SA0 = False"
| "ingenic_drm_writeable_reg JZ_REG_LCD_FID0 = False"
| "ingenic_drm_writeable_reg JZ_REG_LCD_CMD0 = False"
| "ingenic_drm_writeable_reg JZ_REG_LCD_SA1 = False"
| "ingenic_drm_writeable_reg JZ_REG_LCD_FID1 = False"
| "ingenic_drm_writeable_reg JZ_REG_LCD_CMD1 = False"
| "ingenic_drm_writeable_reg _ = True"

text \<open>
  Modelled from the spec: \<^verbatim>\<open>regmap_write\<close> and \<^verbatim>\<open>regmap_update_bits\<close> (the Register
  Interface, implemented by the regmap core outside this file). The spec gives
  \<open>write(reg, val)\<close> and \<open>update_bits(reg, mask, val)\<close> as transactional
  read/modify/write access in which writes to the read-only offsets are rejected before they
  reach the hardware. \<open>update_bits\<close> replaces the bits under the mask by those of the value
  and keeps the others. Every call is recorded in the trace.
\<close>

definition regmap_write :: "reg \<Rightarrow> u32 \<Rightarrow> ingenic_drm \<Rightarrow> ingenic_drm" where
  "regmap_write r v priv =
     priv\<lparr>regmap := (if ingenic_drm_writeable_reg r then (regmap priv)(r := v) else regmap priv),
          trace := trace priv @ [RegWrite r v]\<rparr>"

definition regmap_update_bits :: "reg \<Rightarrow> u32 \<Rightarrow> u32 \<Rightarrow> ingenic_drm \<Rightarrow> ingenic_drm" where
  "regmap_update_bits r msk val priv =
     (let orig = regmap priv r;
          tmp = (orig AND NOT msk) OR (val AND msk)
      in priv\<lparr>regmap := (if ingenic_drm_writeable_reg r then (regmap priv)(r := tmp)
                          else regmap priv),
              trace := trace priv @ [RegUpdateBits r msk val]\<rparr>)"

section \<open>Timing translator\<close>

text \<open>
  The eight locals that \<^verbatim>\<open>ingenic_drm_crtc_update_timings\<close> computes at lines 148-156,
  in \<^verbatim>\<open>unsigned int\<close> arithmetic (wrapping modulo \<open>2 ^ 32\<close>).
\<close>

record timings =
  vpe :: u32
  vds :: u32
  vde :: u32
  vt :: u32
  hpe :: u32
  hds :: u32
  hde :: u32
  ht :: u32

definition crtc_timings :: "drm_display_mode \<Rightarrow> timings" where
  "crtc_timings mode =
     (let vpe = vsync_end mode - vsync_start mode;
          vds = vtotal mode - vsync_start mode;
          vde = vds + vdisplay mode;
          vt = vde + vsync_start mode - vdisplay mode;
          hpe = hsync_end mode - hsync_start mode;
          hds = htotal mode - hsync_start mode;
          hde = hds + hdisplay mode;
          ht = hde + hsync_start mode - hdisplay mode
      in \<lparr>vpe = vpe, vds = vds, vde = vde, vt = vt,
          hpe = hpe, hds = hds, hde = hde, ht = ht\<rparr>)"

text \<open>
  \<^verbatim>\<open>ingenic_drm_crtc_update_timings\<close>, lines 143-190. The function returns
  \<^verbatim>\<open>void\<close>: its only result is the new device state.
\<close>

definition sharp_writes :: "drm_display_mode \<Rightarrow> timings \<Rightarrow> ingenic_drm \<Rightarrow> ingenic_drm" where
  "sharp_writes mode t priv =
     regmap_write JZ_REG_LCD_REV (push_bit 16 (htotal mode))
       (regmap_write JZ_REG_LCD_SPL (push_bit 16 (hpe t) OR (hpe t + 1))
         (regmap_write JZ_REG_LCD_CLS (push_bit 16 (hde t) OR (hde t + 1))
           (regmap_write JZ_REG_LCD_PS (push_bit 16 (hde t) OR (hde t + 1)) priv)))"

definition ingenic_drm_crtc_update_timings ::
  "jz_hdr \<Rightarrow> ingenic_drm \<Rightarrow> drm_display_mode \<Rightarrow> ingenic_drm" where
  "ingenic_drm_crtc_update_timings h priv mode =
     (let t = crtc_timings mode;
          p1 = regmap_write JZ_REG_LCD_VSYNC
                 (push_bit (JZ_LCD_VSYNC_VPS_OFFSET h) 0
                  OR push_bit (JZ_LCD_VSYNC_VPE_OFFSET h) (vpe t)) priv;
          p2 = regmap_write JZ_REG_LCD_HSYNC
                 (push_bit (JZ_LCD_HSYNC_HPS_OFFSET h) 0
                  OR push_bit (JZ_LCD_HSYNC_HPE_OFFSET h) (hpe t)) p1;
          p3 = regmap_write JZ_REG_LCD_VAT
                 (push_bit (JZ_LCD_VAT_HT_OFFSET h) (ht t)
                  OR push_bit (JZ_LCD_VAT_VT_OFFSET h) (vt t)) p2;
          p4 = regmap_write JZ_REG_LCD_DAH
                 (push_bit (JZ_LCD_DAH_HDS_OFFSET h) (hds t)
                  OR push_bit (JZ_LCD_DAH_HDE_OFFSET h) (hde t)) p3;
          p5 = regmap_write JZ_REG_LCD_DAV
                 (push_bit (JZ_LCD_DAV_VDS_OFFSET h) (vds t)
                  OR push_bit (JZ_LCD_DAV_VDE_OFFSET h) (vde t)) p4;
          p6 = (if panel_is_sharp priv then sharp_writes mode t p5 else p5);
          p7 = regmap_update_bits JZ_REG_LCD_CTRL
                 (JZ_LCD_CTRL_OFUP h OR JZ_LCD_CTRL_BURST_16 h)
                 (JZ_LCD_CTRL_OFUP h OR JZ_LCD_CTRL_BURST_16 h) p6
      in regmap_write JZ_REG_LCD_IPUR
           (JZ_LCD_IPUR_IPUREN h
            OR push_bit (JZ_LCD_IPUR_IPUR_LSB h) (ht t * vpe t div 3)) p7)"


section \<open>Transactions: CRTC and plane states\<close>

text \<open>
  The fields of \<^verbatim>\<open>struct drm_crtc_state\<close> that the driver reads or writes. \<open>event\<close> is
  the pending completion notification of the transaction, if it carries one.
\<close>

record drm_crtc_state =
  mode :: drm_display_mode
  adjusted_mode :: drm_display_mode
  mode_changed :: bool
  active_changed :: bool
  connectors_changed :: bool
  no_vblank :: bool
  event :: "vblank_event option"

text \<open>
  A framebuffer, reduced to \<^verbatim>\<open>fb->format->format\<close> and \<^verbatim>\<open>fb->format->cpp[0]\<close>
  (a \<^verbatim>\<open>u8\<close>).
\<close>

record drm_framebuffer =
  format :: u32
  cpp0 :: "8 word"

text \<open>
  The fields of \<^verbatim>\<open>struct drm_plane_state\<close> that the driver reads. \<open>crtc\<close> and \<open>fb\<close>
  are pointers that may be NULL. The source rectangle is in 16.16 fixed point.
\<close>

record drm_plane_state =
  crtc :: "nat option"
  fb :: "drm_framebuffer option"
  crtc_x :: u32
  crtc_y :: u32
  crtc_w :: u32
  crtc_h :: u32
  src_x :: u32
  src_y :: u32
  src_w :: u32
  src_h :: u32

datatype drm_plane_type = DRM_PLANE_TYPE_OVERLAY | DRM_PLANE_TYPE_PRIMARY | DRM_PLANE_TYPE_CURSOR

text \<open>
  \<^verbatim>\<open>struct drm_plane\<close>: its \<^verbatim>\<open>type\<close> and its current \<^verbatim>\<open>state\<close>. The state pointer is
  installed by the reset at bind time, before any callback runs, and the plane check
  dereferences it without a test; it is therefore not optional here.
\<close>

record drm_plane =
  plane_type :: drm_plane_type
  plane_state :: drm_plane_state

definition EINVAL :: int where
  "EINVAL = 22"

text \<open>
  Modelled from the spec: \<^verbatim>\<open>drm_atomic_crtc_needs_modeset\<close>, an inline helper of the DRM
  core that is not in this file. It tells whether the transaction is a modeset (full timing
  reprogram) rather than a fast update; the plane check requests a modeset by setting
  \<open>mode_changed\<close>, so that flag is one of the reasons, beside a change of the active state
  or of the connectors.
\<close>

definition drm_atomic_crtc_needs_modeset :: "drm_crtc_state \<Rightarrow> bool" where
  "drm_atomic_crtc_needs_modeset state =
     (mode_changed state \<or> active_changed state \<or> connectors_changed state)"

section \<open>Commit controller\<close>

text \<open>
  \<^verbatim>\<open>ingenic_drm_crtc_atomic_check\<close>, lines 192-234. \<open>f1_state\<close>, \<open>f0_state\<close> and
  \<open>ipu_state\<close> are what \<^verbatim>\<open>drm_atomic_get_plane_state\<close> yields for the three planes in
  this transaction; \<open>ipu_state\<close> is read only when \<open>ipu_plane\<close> is set. The result is the
  return code and the CRTC state as the function leaves it.
\<close>

definition ingenic_drm_crtc_atomic_check ::
  "ingenic_drm \<Rightarrow> drm_crtc_state \<Rightarrow> drm_plane_state \<Rightarrow> drm_plane_state \<Rightarrow> drm_plane_state
     \<Rightarrow> int \<times> drm_crtc_state" where
  "ingenic_drm_crtc_atomic_check priv state f1_state f0_state ipu_state =
     (if \<not> drm_atomic_crtc_needs_modeset state then (0, state)
      else if max_width (soc_info priv) < hdisplay (mode state)
              \<or> max_height (soc_info priv) < vdisplay (mode state)
      then (- EINVAL, state)
      else
        let rate = pix_clk priv (clock (adjusted_mode state) * 1000) in
        if rate < 0 then (rate, state)
        else if has_osd (soc_info priv) then
          (if ipu_plane priv \<and> fb f1_state \<noteq> None \<and> fb ipu_state \<noteq> None
           then (- EINVAL, state)
           else if fb f1_state = None \<and> fb f0_state = None
                   \<and> \<not> (ipu_plane priv \<and> fb ipu_state \<noteq> None)
           then (0, state\<lparr>no_vblank := True\<rparr>)
           else (0, state))
        else (0, state))"

text \<open>
  Modelled from the spec: the vertical-blank subsystem of the DRM core, which is not in this
  file. Arming registers a notification for the next vertical blank; sending delivers it at
  once; handling a vertical blank increments the frame counter and releases the armed
  notifications.
\<close>

definition drm_crtc_arm_vblank_event :: "vblank_event \<Rightarrow> ingenic_drm \<Rightarrow> ingenic_drm" where
  "drm_crtc_arm_vblank_event e priv =
     priv\<lparr>vblank_armed := vblank_armed priv @ [e],
          trace := trace priv @ [ArmVblankEvent e]\<rparr>"

definition drm_crtc_send_vblank_event :: "vblank_event \<Rightarrow> ingenic_drm \<Rightarrow> ingenic_drm" where
  "drm_crtc_send_vblank_event e priv =
     priv\<lparr>vblank_sent := vblank_sent priv @ [e],
          trace := trace priv @ [SendVblankEvent e]\<rparr>"

definition drm_crtc_handle_vblank :: "ingenic_drm \<Rightarrow> ingenic_drm" where
  "drm_crtc_handle_vblank priv =
     priv\<lparr>vblank_armed := [],
          vblank_sent := vblank_sent priv @ vblank_armed priv,
          vblank_count := vblank_count priv + 1,
          trace := trace priv @ [HandleVblank]\<rparr>"

definition emit :: "effect \<Rightarrow> ingenic_drm \<Rightarrow> ingenic_drm" where
  "emit e priv = priv\<lparr>trace := trace priv @ [e]\<rparr>"

text \<open>
  The event branch of \<^verbatim>\<open>ingenic_drm_crtc_atomic_flush\<close>, lines 265-274, for an event
  \<open>e\<close>. \<open>vblank_get\<close> is the return value of \<^verbatim>\<open>drm_crtc_vblank_get\<close>.
\<close>

definition flush_event :: "int \<Rightarrow> vblank_event \<Rightarrow> ingenic_drm \<Rightarrow> ingenic_drm" where
  "flush_event vblank_get e priv =
     (let p1 = emit SpinLockIrq priv;
          p2 = emit VblankGet p1;
          p3 = (if vblank_get = 0 then drm_crtc_arm_vblank_event e p2
                else drm_crtc_send_vblank_event e p2)
      in emit SpinUnlockIrq p3)"

text \<open>
  \<^verbatim>\<open>ingenic_drm_crtc_atomic_flush\<close>, lines 252-275. \<open>state\<close> is \<^verbatim>\<open>crtc->state\<close>; the
  result is the device state and the CRTC state as the function leaves them.
\<close>

definition ingenic_drm_crtc_atomic_flush ::
  "jz_hdr \<Rightarrow> int \<Rightarrow> ingenic_drm \<Rightarrow> drm_crtc_state \<Rightarrow> ingenic_drm \<times> drm_crtc_state" where
  "ingenic_drm_crtc_atomic_flush h vblank_get priv state =
     (let p1 = (if drm_atomic_crtc_needs_modeset state
                then emit (ClkSetRate (clock (adjusted_mode state) * 1000))
                       (ingenic_drm_crtc_update_timings h priv (mode state))
                else priv)
      in case event state of
           None \<Rightarrow> (p1, state)
         | Some e \<Rightarrow> (flush_event vblank_get e p1, state\<lparr>event := None\<rparr>))"

section \<open>Interrupt handler\<close>

datatype irqreturn = IRQ_NONE | IRQ_HANDLED | IRQ_WAKE_THREAD

text \<open>\<^verbatim>\<open>ingenic_drm_irq_handler\<close>, lines 555-569.\<close>

definition ingenic_drm_irq_handler :: "jz_hdr \<Rightarrow> ingenic_drm \<Rightarrow> irqreturn \<times> ingenic_drm" where
  "ingenic_drm_irq_handler h priv =
     (let state = regmap priv JZ_REG_LCD_STATE;
          p1 = regmap_update_bits JZ_REG_LCD_STATE (JZ_LCD_STATE_EOF_IRQ h) 0 priv;
          p2 = (if state AND JZ_LCD_STATE_EOF_IRQ h \<noteq> 0 then drm_crtc_handle_vblank p1 else p1)
      in (IRQ_HANDLED, p2))"

section \<open>Enabling and disabling the controller\<close>

text \<open>\<^verbatim>\<open>ingenic_drm_crtc_atomic_enable\<close>, lines 113-125.\<close>

definition ingenic_drm_crtc_atomic_enable :: "jz_hdr \<Rightarrow> ingenic_drm \<Rightarrow> ingenic_drm" where
  "ingenic_drm_crtc_atomic_enable h priv =
     emit VblankOn
       (regmap_update_bits JZ_REG_LCD_CTRL
          (JZ_LCD_CTRL_ENABLE h OR JZ_LCD_CTRL_DISABLE h) (JZ_LCD_CTRL_ENABLE h)
          (regmap_write JZ_REG_LCD_STATE 0 priv))"

definition ETIMEDOUT :: int where
  "ETIMEDOUT = 110"

text \<open>
  Modelled from the spec: \<^verbatim>\<open>regmap_read_poll_timeout\<close>, a macro of the regmap core that
  is not in this file. The spec describes the disable transition as a poll of the
  disabled-status bit with a timeout that reports failure; what the macro does with its
  arguments is taken from its contract in the regmap header. It takes the condition, a sleep
  time and a timeout, both in microseconds: it reads the register until the condition holds
  on the value read or, when the timeout argument is not 0, until more than that many
  microseconds have passed since it started; it then reads once more and answers
  \<open>-ETIMEDOUT\<close> unless the condition holds on that last value. A timeout argument of 0
  means that the poll never times out. Between two reads it sleeps for at least a quarter of
  the sleep argument plus one microsecond.

  \<open>reads k\<close> is the value that the hardware shows at read number \<open>k\<close> of the poll, and
  \<open>now\<close> the time elapsed since the poll started. The answer is the return code with the
  value read last; \<open>None\<close> is a poll that never returns.
\<close>

partial_function (option) regmap_read_poll_timeout ::
  "(nat \<Rightarrow> u32) \<Rightarrow> (u32 \<Rightarrow> bool) \<Rightarrow> nat \<Rightarrow> nat \<Rightarrow> nat \<Rightarrow> nat \<Rightarrow> (int \<times> u32) option" where
  "regmap_read_poll_timeout reads cond sleep_us timeout_us now k =
     (if cond (reads k) then Some (0, reads k)
      else if timeout_us \<noteq> 0 \<and> timeout_us < now
      then Some (if cond (reads (Suc k)) then 0 else - ETIMEDOUT, reads (Suc k))
      else regmap_read_poll_timeout reads cond sleep_us timeout_us
             (now + (if sleep_us \<noteq> 0 then drop_bit 2 sleep_us + 1 else 1)) (Suc k))"

text \<open>
  \<^verbatim>\<open>ingenic_drm_crtc_atomic_disable\<close>, lines 127-141. \<open>status k\<close> is what the hardware
  shows in the status register at read number \<open>k\<close> after the disable request;
  \<open>disabled_cond\<close> is the condition \<^verbatim>\<open>var & JZ_LCD_STATE_DISABLED\<close> handed to the poll,
  which is called with a sleep of 1000 and a timeout of 0. The function returns
  \<^verbatim>\<open>void\<close> and the value of the poll is not assigned to anything: the result is the
  device state when the function returns, its status register holding the value read last,
  and \<open>None\<close> when it does not return.
\<close>

definition disabled_cond :: "jz_hdr \<Rightarrow> u32 \<Rightarrow> bool" where
  "disabled_cond h var = (var AND JZ_LCD_STATE_DISABLED h \<noteq> 0)"

definition ingenic_drm_crtc_atomic_disable ::
  "(nat \<Rightarrow> u32) \<Rightarrow> jz_hdr \<Rightarrow> ingenic_drm \<Rightarrow> ingenic_drm option" where
  "ingenic_drm_crtc_atomic_disable status h priv =
     (let p1 = emit VblankOff priv;
          p2 = regmap_update_bits JZ_REG_LCD_CTRL
                 (JZ_LCD_CTRL_DISABLE h) (JZ_LCD_CTRL_DISABLE h) p1
      in case regmap_read_poll_timeout status (disabled_cond h) 1000 0 0 0 of
           None \<Rightarrow> None
         | Some (ret, var) \<Rightarrow> Some (p2\<lparr>regmap := (regmap p2)(JZ_REG_LCD_STATE := var)\<rparr>))"


section \<open>Plane and descriptor manager\<close>

text \<open>
  \<^verbatim>\<open>drm_atomic_helper_check_plane_state\<close> is the DRM core's generic geometry check and
  not in this file. It is a parameter: given the new plane state, the CRTC state and the
  flags \<^verbatim>\<open>can_position\<close> and \<^verbatim>\<open>can_update_disabled\<close>, it answers the return code.
  The driver always calls it with both scaling bounds set to
  \<^verbatim>\<open>DRM_PLANE_HELPER_NO_SCALING\<close>. It writes none of the fields that the driver reads
  afterwards.
\<close>

type_synonym check_plane_state = "drm_plane_state \<Rightarrow> drm_crtc_state \<Rightarrow> bool \<Rightarrow> bool \<Rightarrow> int"

text \<open>
  \<^verbatim>\<open>ingenic_drm_plane_atomic_check\<close>, lines 277-320. \<open>state\<close> is the proposed plane
  state, \<open>plane_state plane\<close> the current one, and \<open>existing\<close> what
  \<^verbatim>\<open>drm_atomic_get_existing_crtc_state\<close> finds in the transaction for the CRTC (the driver
  has a single CRTC). The result is the return code and that CRTC state as the function
  leaves it.
\<close>

definition ingenic_drm_plane_atomic_check ::
  "check_plane_state \<Rightarrow> ingenic_drm \<Rightarrow> drm_plane \<Rightarrow> drm_plane_state \<Rightarrow> drm_crtc_state option
     \<Rightarrow> int \<times> drm_crtc_state option" where
  "ingenic_drm_plane_atomic_check helper priv plane state existing =
     (case (case crtc state of Some c \<Rightarrow> Some c | None \<Rightarrow> crtc (plane_state plane)) of
        None \<Rightarrow> (0, existing)
      | Some c \<Rightarrow>
          (case existing of
             None \<Rightarrow> (- EINVAL, existing)
           | Some crtc_state \<Rightarrow>
               let ret = helper state crtc_state (has_osd (soc_info priv)) True in
               if ret \<noteq> 0 then (ret, existing)
               else if \<not> has_osd (soc_info priv)
                       \<and> (src_x state \<noteq> 0
                          \<or> drop_bit 16 (src_w state) \<noteq> crtc_w state
                          \<or> drop_bit 16 (src_h state) \<noteq> crtc_h state)
               then (- EINVAL, existing)
               else if has_osd (soc_info priv)
                       \<and> (fb (plane_state plane) = None \<or> fb state = None
                          \<or> crtc_x (plane_state plane) \<noteq> crtc_x state
                          \<or> crtc_y (plane_state plane) \<noteq> crtc_y state
                          \<or> crtc_w (plane_state plane) \<noteq> crtc_w state
                          \<or> crtc_h (plane_state plane) \<noteq> crtc_h state
                          \<or> format (the (fb (plane_state plane))) \<noteq> format (the (fb state)))
               then (0, Some (crtc_state\<lparr>mode_changed := True\<rparr>))
               else (0, existing)))"

text \<open>\<^verbatim>\<open>ingenic_drm_plane_enable\<close>, lines 322-335.\<close>

definition ingenic_drm_plane_enable :: "jz_hdr \<Rightarrow> ingenic_drm \<Rightarrow> drm_plane \<Rightarrow> ingenic_drm" where
  "ingenic_drm_plane_enable h priv plane =
     (if has_osd (soc_info priv) then
        (let en_bit = (if plane_type plane = DRM_PLANE_TYPE_PRIMARY then JZ_LCD_OSDC_F1EN h
                       else JZ_LCD_OSDC_F0EN h)
         in regmap_update_bits JZ_REG_LCD_OSDC en_bit en_bit priv)
      else priv)"

text \<open>\<^verbatim>\<open>ingenic_drm_plane_disable\<close>, lines 337-350.\<close>

definition ingenic_drm_plane_disable :: "jz_hdr \<Rightarrow> ingenic_drm \<Rightarrow> drm_plane \<Rightarrow> ingenic_drm" where
  "ingenic_drm_plane_disable h priv plane =
     (if has_osd (soc_info priv) then
        (let en_bit = (if plane_type plane = DRM_PLANE_TYPE_PRIMARY then JZ_LCD_OSDC_F1EN h
                       else JZ_LCD_OSDC_F0EN h)
         in regmap_update_bits JZ_REG_LCD_OSDC en_bit 0 priv)
      else priv)"

text \<open>
  The two pixel-format switches of \<^verbatim>\<open>ingenic_drm_plane_config\<close>, lines 373-383 and
  388-398; the first case falls through into the second.
\<close>

definition osdctrl_bpp :: "jz_hdr \<Rightarrow> u32 \<Rightarrow> u32" where
  "osdctrl_bpp h fourcc =
     (if fourcc = DRM_FORMAT_XRGB1555 h then JZ_LCD_OSDCTRL_RGB555 h OR JZ_LCD_OSDCTRL_BPP_15_16 h
      else if fourcc = DRM_FORMAT_RGB565 h then JZ_LCD_OSDCTRL_BPP_15_16 h
      else if fourcc = DRM_FORMAT_XRGB8888 h then JZ_LCD_OSDCTRL_BPP_18_24 h
      else 0)"

definition ctrl_bpp :: "jz_hdr \<Rightarrow> u32 \<Rightarrow> u32" where
  "ctrl_bpp h fourcc =
     (if fourcc = DRM_FORMAT_XRGB1555 h then JZ_LCD_CTRL_RGB555 h OR JZ_LCD_CTRL_BPP_15_16 h
      else if fourcc = DRM_FORMAT_RGB565 h then JZ_LCD_CTRL_BPP_15_16 h
      else if fourcc = DRM_FORMAT_XRGB8888 h then JZ_LCD_CTRL_BPP_18_24 h
      else 0)"

text \<open>\<^verbatim>\<open>ingenic_drm_plane_config\<close>, lines 361-420.\<close>

definition ingenic_drm_plane_config ::
  "jz_hdr \<Rightarrow> ingenic_drm \<Rightarrow> drm_plane \<Rightarrow> u32 \<Rightarrow> ingenic_drm" where
  "ingenic_drm_plane_config h priv plane fourcc =
     (let state = plane_state plane;
          p1 = ingenic_drm_plane_enable h priv plane;
          p2 = (if has_osd (soc_info priv) \<and> plane_type plane = DRM_PLANE_TYPE_PRIMARY
                then regmap_update_bits JZ_REG_LCD_OSDCTRL (JZ_LCD_OSDCTRL_BPP_MASK h)
                       (osdctrl_bpp h fourcc) p1
                else regmap_update_bits JZ_REG_LCD_CTRL (JZ_LCD_CTRL_BPP_MASK h)
                       (ctrl_bpp h fourcc) p1)
      in if has_osd (soc_info priv) then
           (let xy_reg = (if plane_type plane = DRM_PLANE_TYPE_PRIMARY then JZ_REG_LCD_XYP1
                          else JZ_REG_LCD_XYP0);
                size_reg = (if plane_type plane = DRM_PLANE_TYPE_PRIMARY then JZ_REG_LCD_SIZE1
                            else JZ_REG_LCD_SIZE0)
            in regmap_write size_reg
                 (push_bit (JZ_LCD_SIZE01_WIDTH_LSB h) (crtc_w state)
                  OR push_bit (JZ_LCD_SIZE01_HEIGHT_LSB h) (crtc_h state))
                 (regmap_write xy_reg
                    (push_bit (JZ_LCD_XYP01_XPOS_LSB h) (crtc_x state)
                     OR push_bit (JZ_LCD_XYP01_YPOS_LSB h) (crtc_y state)) p2))
         else p2)"

text \<open>The local \<^verbatim>\<open>hwdesc_idx\<close> of \<^verbatim>\<open>ingenic_drm_plane_atomic_update\<close>, lines 444-447.\<close>

definition hwdesc_idx :: "ingenic_drm \<Rightarrow> drm_plane \<Rightarrow> nat" where
  "hwdesc_idx priv plane =
     (if \<not> has_osd (soc_info priv) then 0
      else if plane_type plane = DRM_PLANE_TYPE_PRIMARY then 1 else 0)"

text \<open>
  \<^verbatim>\<open>ingenic_drm_plane_atomic_update\<close>, lines 423-457. \<open>get_gem_addr\<close> stands for
  \<^verbatim>\<open>drm_fb_cma_get_gem_addr\<close>, the buffer provider; \<open>crtc_st\<close> is
  \<^verbatim>\<open>state->crtc->state\<close>. The plane's own state is never NULL here, so the guard
  \<^verbatim>\<open>state && state->fb\<close> is the test on the framebuffer.
\<close>

definition ingenic_drm_plane_atomic_update ::
  "jz_hdr \<Rightarrow> (drm_framebuffer \<Rightarrow> drm_plane_state \<Rightarrow> u32) \<Rightarrow> ingenic_drm \<Rightarrow> drm_plane
     \<Rightarrow> drm_crtc_state \<Rightarrow> ingenic_drm" where
  "ingenic_drm_plane_atomic_update h get_gem_addr priv plane crtc_st =
     (let state = plane_state plane in
      case fb state of
        None \<Rightarrow> priv
      | Some f \<Rightarrow>
          let a = get_gem_addr f state;
              width = drop_bit 16 (src_w state);
              height = drop_bit 16 (src_h state);
              cpp = (ucast (cpp0 f) :: u32);
              p1 = (if cached_gem_buf priv
                    then emit (DmaCacheSync a (width * height * cpp)) priv else priv);
              i = hwdesc_idx priv plane;
              d = dma_hwdesc p1 i;
              d' = d\<lparr>addr := a, cmd := (width * height * cpp div 4) OR JZ_LCD_CMD_EOF_IRQ h\<rparr>;
              p2 = p1\<lparr>dma_hwdesc := (dma_hwdesc p1)(i := d')\<rparr>
          in if drm_atomic_crtc_needs_modeset crtc_st
             then ingenic_drm_plane_config h p2 plane (format f)
             else p2)"

text \<open>
  The descriptor set-up of \<^verbatim>\<open>ingenic_drm_bind\<close>, lines 804-820. \<open>alloc0\<close> and
  \<open>alloc1\<close> are the bus addresses that \<^verbatim>\<open>dma_alloc_coherent\<close> hands out, \<open>None\<close> when
  the allocation fails; \<open>ENOMEM\<close> is the errno returned then.
\<close>

definition ENOMEM :: int where
  "ENOMEM = 12"

definition init_hwdesc :: "nat \<Rightarrow> u32 \<Rightarrow> u32 \<Rightarrow> ingenic_drm \<Rightarrow> ingenic_drm" where
  "init_hwdesc i phys tag priv =
     (let p1 = priv\<lparr>dma_hwdesc_phys := (dma_hwdesc_phys priv)(i := phys)\<rparr>;
          d = (dma_hwdesc p1 i)\<lparr>next := dma_hwdesc_phys p1 i, desc_id := tag\<rparr>
      in p1\<lparr>dma_hwdesc := (dma_hwdesc p1)(i := d)\<rparr>)"

definition bind_dma_hwdesc :: "u32 option \<Rightarrow> u32 option \<Rightarrow> ingenic_drm \<Rightarrow> int + ingenic_drm" where
  "bind_dma_hwdesc alloc0 alloc1 priv =
     (case alloc0 of
        None \<Rightarrow> Inl (- ENOMEM)
      | Some phys0 \<Rightarrow>
          (case alloc1 of
             None \<Rightarrow> Inl (- ENOMEM)
           | Some phys1 \<Rightarrow>
               Inr (init_hwdesc 1 phys1 0xdeadbabe (init_hwdesc 0 phys0 0xdeafbead priv))))"

section \<open>Properties: vocabulary\<close>

text \<open>
  The descriptor chain as the bind leaves it: each descriptor points to itself and carries
  its tag.
\<close>

definition hwdesc_inv :: "ingenic_drm \<Rightarrow> bool" where
  "hwdesc_inv priv =
     (next (dma_hwdesc priv 0) = dma_hwdesc_phys priv 0
      \<and> desc_id (dma_hwdesc priv 0) = 0xdeafbead
      \<and> next (dma_hwdesc priv 1) = dma_hwdesc_phys priv 1
      \<and> desc_id (dma_hwdesc priv 1) = 0xdeadbabe)"

text \<open>
  A plane state is consistent when it has a framebuffer exactly if it is bound to a CRTC;
  the DRM core refuses any other plane state before the driver's checks run.
\<close>

definition fb_crtc_consistent :: "drm_plane_state \<Rightarrow> bool" where
  "fb_crtc_consistent st = ((fb st = None) = (crtc st = None))"

text \<open>The plane goes from no buffer to a buffer, or from a buffer to none.\<close>

definition fb_presence_changed :: "drm_plane_state \<Rightarrow> drm_plane_state \<Rightarrow> bool" where
  "fb_presence_changed old new = ((fb old = None) \<noteq> (fb new = None))"

text \<open>The plane is live before and after, and its position, size or format differs.\<close>

definition live_plane_changed :: "drm_plane_state \<Rightarrow> drm_plane_state \<Rightarrow> bool" where
  "live_plane_changed old new =
     (case (fb old, fb new) of
        (Some f_old, Some f_new) \<Rightarrow>
          crtc_x old \<noteq> crtc_x new \<or> crtc_y old \<noteq> crtc_y new
          \<or> crtc_w old \<noteq> crtc_w new \<or> crtc_h old \<noteq> crtc_h new
          \<or> format f_old \<noteq> format f_new
      | _ \<Rightarrow> False)"


section \<open>Concrete devices and transactions\<close>

text \<open>The three SoC descriptions of the driver, lines 1032-1051.\<close>

definition jz4740_soc_info :: jz_soc_info where
  "jz4740_soc_info =
     \<lparr>needs_dev_clk = True, has_osd = False, max_width = 800, max_height = 600\<rparr>"

definition jz4725b_soc_info :: jz_soc_info where
  "jz4725b_soc_info =
     \<lparr>needs_dev_clk = False, has_osd = True, max_width = 800, max_height = 600\<rparr>"

definition jz4770_soc_info :: jz_soc_info where
  "jz4770_soc_info =
     \<lparr>needs_dev_clk = False, has_osd = True, max_width = 1280, max_height = 720\<rparr>"

text \<open>One assignment of the header constants, used to evaluate the model on examples.\<close>

definition hdr0 :: jz_hdr where
  "hdr0 =
     \<lparr>JZ_LCD_VSYNC_VPS_OFFSET = 16, JZ_LCD_VSYNC_VPE_OFFSET = 0,
      JZ_LCD_HSYNC_HPS_OFFSET = 16, JZ_LCD_HSYNC_HPE_OFFSET = 0,
      JZ_LCD_VAT_HT_OFFSET = 16, JZ_LCD_VAT_VT_OFFSET = 0,
      JZ_LCD_DAH_HDS_OFFSET = 16, JZ_LCD_DAH_HDE_OFFSET = 0,
      JZ_LCD_DAV_VDS_OFFSET = 16, JZ_LCD_DAV_VDE_OFFSET = 0,
      JZ_LCD_CTRL_OFUP = 0x04000000, JZ_LCD_CTRL_BURST_16 = 0x20000000,
      JZ_LCD_CTRL_ENABLE = 0x8, JZ_LCD_CTRL_DISABLE = 0x10,
      JZ_LCD_CTRL_RGB555 = 0x08000000, JZ_LCD_CTRL_BPP_15_16 = 4,
      JZ_LCD_CTRL_BPP_18_24 = 5, JZ_LCD_CTRL_BPP_MASK = 0x08000007,
      JZ_LCD_STATE_EOF_IRQ = 0x20, JZ_LCD_STATE_DISABLED = 0x1,
      JZ_LCD_CMD_EOF_IRQ = 0x40000000,
      JZ_LCD_OSDC_F0EN = 0x8, JZ_LCD_OSDC_F1EN = 0x10,
      JZ_LCD_OSDCTRL_IPU = 0x8000, JZ_LCD_OSDCTRL_RGB555 = 0x10,
      JZ_LCD_OSDCTRL_BPP_15_16 = 4, JZ_LCD_OSDCTRL_BPP_18_24 = 5,
      JZ_LCD_OSDCTRL_BPP_MASK = 0x17,
      JZ_LCD_XYP01_XPOS_LSB = 0, JZ_LCD_XYP01_YPOS_LSB = 16,
      JZ_LCD_SIZE01_WIDTH_LSB = 0, JZ_LCD_SIZE01_HEIGHT_LSB = 16,
      JZ_LCD_IPUR_IPUREN = 0x80000000, JZ_LCD_IPUR_IPUR_LSB = 0,
      DRM_FORMAT_XRGB1555 = 0x35315258, DRM_FORMAT_RGB565 = 0x36314752,
      DRM_FORMAT_XRGB8888 = 0x34325258\<rparr>"

text \<open>
  A device right after allocation: all registers and descriptors zero, nothing armed, an
  empty trace, and a pixel clock that can be set to any rate asked for.
\<close>

definition fresh_priv :: "jz_soc_info \<Rightarrow> bool \<Rightarrow> ingenic_drm" where
  "fresh_priv soc ipu =
     \<lparr>soc_info = soc, ipu_plane = ipu, panel_is_sharp = False, cached_gem_buf = False,
      pix_clk = (\<lambda>rate. uint rate), regmap = (\<lambda>r. 0),
      dma_hwdesc = (\<lambda>i. \<lparr>next = 0, addr = 0, desc_id = 0, cmd = 0\<rparr>),
      dma_hwdesc_phys = (\<lambda>i. 0),
      vblank_armed = [], vblank_sent = [], vblank_count = 0, trace = []\<rparr>"

text \<open>The same device after the descriptor set-up of the bind, at two bus addresses.\<close>

definition bound_priv :: "jz_soc_info \<Rightarrow> bool \<Rightarrow> ingenic_drm" where
  "bound_priv soc ipu =
     init_hwdesc 1 0x01000010 0xdeadbabe (init_hwdesc 0 0x01000000 0xdeafbead (fresh_priv soc ipu))"

text \<open>
  640x480 with the usual VGA blanking; the same with no front porch in either direction
  (the sync pulse starts where the active area ends); and a mode whose vertical sync ends
  before it starts.
\<close>

definition mode_vga :: drm_display_mode where
  "mode_vga =
     \<lparr>clock = 25175, hdisplay = 640, hsync_start = 656, hsync_end = 752, htotal = 800,
      vdisplay = 480, vsync_start = 490, vsync_end = 492, vtotal = 525\<rparr>"

definition mode_no_front_porch :: drm_display_mode where
  "mode_no_front_porch =
     \<lparr>clock = 25175, hdisplay = 640, hsync_start = 640, hsync_end = 736, htotal = 800,
      vdisplay = 480, vsync_start = 480, vsync_end = 482, vtotal = 525\<rparr>"

definition mode_sync_reversed :: drm_display_mode where
  "mode_sync_reversed =
     \<lparr>clock = 25175, hdisplay = 640, hsync_start = 656, hsync_end = 752, htotal = 800,
      vdisplay = 480, vsync_start = 492, vsync_end = 490, vtotal = 525\<rparr>"

text \<open>
  CRTC states: a fast update, a modeset, a modeset carrying event 7 and a fast update
  carrying event 7.
\<close>

definition crtc_fast :: "drm_display_mode \<Rightarrow> drm_crtc_state" where
  "crtc_fast m =
     \<lparr>mode = m, adjusted_mode = m, mode_changed = False, active_changed = False,
      connectors_changed = False, no_vblank = False, event = None\<rparr>"

definition crtc_modeset :: "drm_display_mode \<Rightarrow> drm_crtc_state" where
  "crtc_modeset m =
     \<lparr>mode = m, adjusted_mode = m, mode_changed = True, active_changed = False,
      connectors_changed = False, no_vblank = False, event = None\<rparr>"


definition crtc_fast_event :: "drm_display_mode \<Rightarrow> drm_crtc_state" where
  "crtc_fast_event m =
     \<lparr>mode = m, adjusted_mode = m, mode_changed = False, active_changed = False,
      connectors_changed = False, no_vblank = False, event = Some 7\<rparr>"

text \<open>
  Plane states: a plane that is off, a full-screen 640x480 RGB565 plane, and the same plane
  reading from one line further down in its buffer.
\<close>

definition fb_rgb565 :: drm_framebuffer where
  "fb_rgb565 = \<lparr>format = 0x36314752, cpp0 = 2\<rparr>"

definition plane_off :: drm_plane_state where
  "plane_off =
     \<lparr>crtc = None, fb = None, crtc_x = 0, crtc_y = 0, crtc_w = 0, crtc_h = 0,
      src_x = 0, src_y = 0, src_w = 0, src_h = 0\<rparr>"

definition plane_full :: drm_plane_state where
  "plane_full =
     \<lparr>crtc = Some 0, fb = Some fb_rgb565, crtc_x = 0, crtc_y = 0, crtc_w = 640, crtc_h = 480,
      src_x = 0, src_y = 0, src_w = 0x02800000, src_h = 0x01E00000\<rparr>"

definition plane_full_panned :: drm_plane_state where
  "plane_full_panned =
     \<lparr>crtc = Some 0, fb = Some fb_rgb565, crtc_x = 0, crtc_y = 0, crtc_w = 640, crtc_h = 480,
      src_x = 0, src_y = 0x00010000, src_w = 0x02800000, src_h = 0x01E00000\<rparr>"

text \<open>
  A geometry helper for the examples. It does what the driver calls the generic helper for:
  it accepts an invisible plane, refuses any scaling and, when positioning is not allowed,
  refuses a destination other than the whole CRTC.
\<close>

definition ERANGE :: int where
  "ERANGE = 34"

definition no_scaling_check :: check_plane_state where
  "no_scaling_check state crtc_state can_position can_update_disabled =
     (if fb state = None then 0
      else if src_w state \<noteq> push_bit 16 (crtc_w state)
              \<or> src_h state \<noteq> push_bit 16 (crtc_h state) then - ERANGE
      else if \<not> can_position
              \<and> (crtc_x state \<noteq> 0 \<or> crtc_y state \<noteq> 0
                 \<or> crtc_w state \<noteq> hdisplay (mode crtc_state)
                 \<or> crtc_h state \<noteq> vdisplay (mode crtc_state)) then - EINVAL
      else 0)"

text \<open>
  Two pieces of hardware after a disable request: one that never sets the disabled bit, and
  one that sets it from the third read on (the value \<open>0x81\<close> also has bit 7 set).
\<close>

definition status_never_disabled :: "nat \<Rightarrow> u32" where
  "status_never_disabled k = 0x80"

definition status_disabled_late :: "nat \<Rightarrow> u32" where
  "status_disabled_late k = (if k < 2 then 0x80 else 0x81)"

text \<open>A buffer provider for the examples: every buffer sits at the same bus address.\<close>

definition gem_addr0 :: "drm_framebuffer \<Rightarrow> drm_plane_state \<Rightarrow> u32" where
  "gem_addr0 f state = 0x02000000"

text \<open>
  The full-screen plane reading from one pixel further right in its buffer, and the two
  planes that the driver registers: F1 as the primary plane, F0 as the overlay plane.
\<close>

definition plane_full_shifted :: drm_plane_state where
  "plane_full_shifted =
     \<lparr>crtc = Some 0, fb = Some fb_rgb565, crtc_x = 0, crtc_y = 0, crtc_w = 640, crtc_h = 480,
      src_x = 0x00010000, src_y = 0, src_w = 0x02800000, src_h = 0x01E00000\<rparr>"

definition primary_plane :: "drm_plane_state \<Rightarrow> drm_plane" where
  "primary_plane st = \<lparr>plane_type = DRM_PLANE_TYPE_PRIMARY, plane_state = st\<rparr>"

definition overlay_plane :: "drm_plane_state \<Rightarrow> drm_plane" where
  "overlay_plane st = \<lparr>plane_type = DRM_PLANE_TYPE_OVERLAY, plane_state = st\<rparr>"

text \<open>
  A JZ4770 with an image-processing plane, a given value in the status register and event 3
  armed for the next vertical blank.
\<close>

definition irq_priv :: "u32 \<Rightarrow> ingenic_drm" where
  "irq_priv status =
     (fresh_priv jz4770_soc_info True)
       \<lparr>regmap := (\<lambda>r. 0)(JZ_REG_LCD_STATE := status), vblank_armed := [3]\<rparr>"

section \<open>Field lemmas\<close>

text \<open>What the register and trace primitives leave alone.\<close>

lemma regmap_write_fields:
  "soc_info (regmap_write r v p) = soc_info p"
  "ipu_plane (regmap_write r v p) = ipu_plane p"
  "panel_is_sharp (regmap_write r v p) = panel_is_sharp p"
  "cached_gem_buf (regmap_write r v p) = cached_gem_buf p"
  "pix_clk (regmap_write r v p) = pix_clk p"
  "dma_hwdesc (regmap_write r v p) = dma_hwdesc p"
  "dma_hwdesc_phys (regmap_write r v p) = dma_hwdesc_phys p"
  "vblank_armed (regmap_write r v p) = vblank_armed p"
  "vblank_sent (regmap_write r v p) = vblank_sent p"
  "vblank_count (regmap_write r v p) = vblank_count p"
  "trace (regmap_write r v p) = trace p @ [RegWrite r v]"
  by (simp_all add: regmap_write_def)

lemma regmap_update_bits_fields:
  "soc_info (regmap_update_bits r m v p) = soc_info p"
  "ipu_plane (regmap_update_bits r m v p) = ipu_plane p"
  "panel_is_sharp (regmap_update_bits r m v p) = panel_is_sharp p"
  "cached_gem_buf (regmap_update_bits r m v p) = cached_gem_buf p"
  "pix_clk (regmap_update_bits r m v p) = pix_clk p"
  "dma_hwdesc (regmap_update_bits r m v p) = dma_hwdesc p"
  "dma_hwdesc_phys (regmap_update_bits r m v p) = dma_hwdesc_phys p"
  "vblank_armed (regmap_update_bits r m v p) = vblank_armed p"
  "vblank_sent (regmap_update_bits r m v p) = vblank_sent p"
  "vblank_count (regmap_update_bits r m v p) = vblank_count p"
  "trace (regmap_update_bits r m v p) = trace p @ [RegUpdateBits r m v]"
  by (simp_all add: regmap_update_bits_def Let_def)

lemma emit_fields:
  "soc_info (emit e p) = soc_info p"
  "ipu_plane (emit e p) = ipu_plane p"
  "panel_is_sharp (emit e p) = panel_is_sharp p"
  "cached_gem_buf (emit e p) = cached_gem_buf p"
  "pix_clk (emit e p) = pix_clk p"
  "regmap (emit e p) = regmap p"
  "dma_hwdesc (emit e p) = dma_hwdesc p"
  "dma_hwdesc_phys (emit e p) = dma_hwdesc_phys p"
  "vblank_armed (emit e p) = vblank_armed p"
  "vblank_sent (emit e p) = vblank_sent p"
  "vblank_count (emit e p) = vblank_count p"
  "trace (emit e p) = trace p @ [e]"
  by (simp_all add: emit_def)

lemma update_timings_fields:
  "soc_info (ingenic_drm_crtc_update_timings h p m) = soc_info p"
  "ipu_plane (ingenic_drm_crtc_update_timings h p m) = ipu_plane p"
  "dma_hwdesc (ingenic_drm_crtc_update_timings h p m) = dma_hwdesc p"
  "dma_hwdesc_phys (ingenic_drm_crtc_update_timings h p m) = dma_hwdesc_phys p"
  "vblank_armed (ingenic_drm_crtc_update_timings h p m) = vblank_armed p"
  "vblank_sent (ingenic_drm_crtc_update_timings h p m) = vblank_sent p"
  "vblank_count (ingenic_drm_crtc_update_timings h p m) = vblank_count p"
  by (simp_all add: ingenic_drm_crtc_update_timings_def sharp_writes_def Let_def
        regmap_write_fields regmap_update_bits_fields)

section \<open>Timing translator: results\<close>

text \<open>The derived fields in closed form; the two totals are those of the mode.\<close>

lemma crtc_timings_closed_form:
  "crtc_timings m =
     \<lparr>vpe = vsync_end m - vsync_start m,
      vds = vtotal m - vsync_start m,
      vde = vtotal m - vsync_start m + vdisplay m,
      vt = vtotal m,
      hpe = hsync_end m - hsync_start m,
      hds = htotal m - hsync_start m,
      hde = htotal m - hsync_start m + hdisplay m,
      ht = htotal m\<rparr>"
  by (simp add: crtc_timings_def Let_def)

text \<open>With an empty front porch the total equals the data end, in either direction.\<close>

lemma timings_empty_front_porch:
  "vsync_start m = vdisplay m \<Longrightarrow> vde (crtc_timings m) = vt (crtc_timings m)"
  "hsync_start m = hdisplay m \<Longrightarrow> hde (crtc_timings m) = ht (crtc_timings m)"
  by (simp_all add: crtc_timings_closed_form)

text \<open>
  C5 (as amended). The timing translator never fails: it returns no value and makes no test
  on the mode. For every mode, valid or not, it computes the derived fields modulo
  \<open>2 ^ 32\<close> and performs the same register accesses in the same order, with these values:
  the five timing registers, the four special-TFT registers when the panel asks for them,
  the control bits and the underrun threshold. Afterwards the timing registers, the control
  register and the threshold register hold what was written.
\<close>

theorem update_timings_total:
  "trace (ingenic_drm_crtc_update_timings h priv m) =
     trace priv
     @ [RegWrite JZ_REG_LCD_VSYNC
          (push_bit (JZ_LCD_VSYNC_VPS_OFFSET h) 0
           OR push_bit (JZ_LCD_VSYNC_VPE_OFFSET h) (vsync_end m - vsync_start m)),
        RegWrite JZ_REG_LCD_HSYNC
          (push_bit (JZ_LCD_HSYNC_HPS_OFFSET h) 0
           OR push_bit (JZ_LCD_HSYNC_HPE_OFFSET h) (hsync_end m - hsync_start m)),
        RegWrite JZ_REG_LCD_VAT
          (push_bit (JZ_LCD_VAT_HT_OFFSET h) (htotal m)
           OR push_bit (JZ_LCD_VAT_VT_OFFSET h) (vtotal m)),
        RegWrite JZ_REG_LCD_DAH
          (push_bit (JZ_LCD_DAH_HDS_OFFSET h) (htotal m - hsync_start m)
           OR push_bit (JZ_LCD_DAH_HDE_OFFSET h) (htotal m - hsync_start m + hdisplay m)),
        RegWrite JZ_REG_LCD_DAV
          (push_bit (JZ_LCD_DAV_VDS_OFFSET h) (vtotal m - vsync_start m)
           OR push_bit (JZ_LCD_DAV_VDE_OFFSET h) (vtotal m - vsync_start m + vdisplay m))]
     @ (if panel_is_sharp priv
        then [RegWrite JZ_REG_LCD_PS
                (push_bit 16 (htotal m - hsync_start m + hdisplay m)
                 OR (htotal m - hsync_start m + hdisplay m + 1)),
              RegWrite JZ_REG_LCD_CLS
                (push_bit 16 (htotal m - hsync_start m + hdisplay m)
                 OR (htotal m - hsync_start m + hdisplay m + 1)),
              RegWrite JZ_REG_LCD_SPL
                (push_bit 16 (hsync_end m - hsync_start m)
                 OR (hsync_end m - hsync_start m + 1)),
              RegWrite JZ_REG_LCD_REV (push_bit 16 (htotal m))]
        else [])
     @ [RegUpdateBits JZ_REG_LCD_CTRL
          (JZ_LCD_CTRL_OFUP h OR JZ_LCD_CTRL_BURST_16 h)
          (JZ_LCD_CTRL_OFUP h OR JZ_LCD_CTRL_BURST_16 h),
        RegWrite JZ_REG_LCD_IPUR
          (JZ_LCD_IPUR_IPUREN h
           OR push_bit (JZ_LCD_IPUR_IPUR_LSB h)
                (htotal m * (vsync_end m - vsync_start m) div 3))]
   \<and> regmap (ingenic_drm_crtc_update_timings h priv m) JZ_REG_LCD_VSYNC
       = push_bit (JZ_LCD_VSYNC_VPS_OFFSET h) 0
         OR push_bit (JZ_LCD_VSYNC_VPE_OFFSET h) (vsync_end m - vsync_start m)
   \<and> regmap (ingenic_drm_crtc_update_timings h priv m) JZ_REG_LCD_HSYNC
       = push_bit (JZ_LCD_HSYNC_HPS_OFFSET h) 0
         OR push_bit (JZ_LCD_HSYNC_HPE_OFFSET h) (hsync_end m - hsync_start m)
   \<and> regmap (ingenic_drm_crtc_update_timings h priv m) JZ_REG_LCD_VAT
       = push_bit (JZ_LCD_VAT_HT_OFFSET h) (htotal m)
         OR push_bit (JZ_LCD_VAT_VT_OFFSET h) (vtotal m)
   \<and> regmap (ingenic_drm_crtc_update_timings h priv m) JZ_REG_LCD_DAH
       = push_bit (JZ_LCD_DAH_HDS_OFFSET h) (htotal m - hsync_start m)
         OR push_bit (JZ_LCD_DAH_HDE_OFFSET h) (htotal m - hsync_start m + hdisplay m)
   \<and> regmap (ingenic_drm_crtc_update_timings h priv m) JZ_REG_LCD_DAV
       = push_bit (JZ_LCD_DAV_VDS_OFFSET h) (vtotal m - vsync_start m)
         OR push_bit (JZ_LCD_DAV_VDE_OFFSET h) (vtotal m - vsync_start m + vdisplay m)
   \<and> regmap (ingenic_drm_crtc_update_timings h priv m) JZ_REG_LCD_CTRL
       = (regmap priv JZ_REG_LCD_CTRL AND NOT (JZ_LCD_CTRL_OFUP h OR JZ_LCD_CTRL_BURST_16 h))
         OR (JZ_LCD_CTRL_OFUP h OR JZ_LCD_CTRL_BURST_16 h)
   \<and> regmap (ingenic_drm_crtc_update_timings h priv m) JZ_REG_LCD_IPUR
       = JZ_LCD_IPUR_IPUREN h
         OR push_bit (JZ_LCD_IPUR_IPUR_LSB h) (htotal m * (vsync_end m - vsync_start m) div 3)"
  by (simp add: ingenic_drm_crtc_update_timings_def sharp_writes_def Let_def
        regmap_write_def regmap_update_bits_def crtc_timings_closed_form)

text \<open>The translator on 640x480 and a fresh JZ4740 device.\<close>

theorem update_timings_total_witness:
  "trace (ingenic_drm_crtc_update_timings hdr0 (fresh_priv jz4740_soc_info False) mode_vga) =
     [RegWrite JZ_REG_LCD_VSYNC 2,
      RegWrite JZ_REG_LCD_HSYNC 96,
      RegWrite JZ_REG_LCD_VAT 0x0320020D,
      RegWrite JZ_REG_LCD_DAH 0x00900310,
      RegWrite JZ_REG_LCD_DAV 0x00230203,
      RegUpdateBits JZ_REG_LCD_CTRL 0x24000000 0x24000000,
      RegWrite JZ_REG_LCD_IPUR 0x80000215]
   \<and> regmap (ingenic_drm_crtc_update_timings hdr0 (fresh_priv jz4740_soc_info False) mode_vga)
        JZ_REG_LCD_VAT = 0x0320020D
   \<and> regmap (ingenic_drm_crtc_update_timings hdr0 (fresh_priv jz4740_soc_info False) mode_vga)
        JZ_REG_LCD_CTRL = 0x24000000"
  using update_timings_total [of hdr0 "fresh_priv jz4740_soc_info False" mode_vga]
  by (simp add: fresh_priv_def hdr0_def mode_vga_def)

text \<open>
  C5 as stated fails: a mode whose vertical sync ends before it starts has a negative pulse
  length, which wraps to \<open>0xFFFFFFFE\<close>; the translator does not fail on it but writes
  that value and the six other registers.
\<close>

theorem update_timings_invalid_geometry_counterexample:
  "vsync_end mode_sync_reversed < vsync_start mode_sync_reversed
   \<and> vpe (crtc_timings mode_sync_reversed) = 0xFFFFFFFE
   \<and> regmap (ingenic_drm_crtc_update_timings hdr0 (fresh_priv jz4740_soc_info False) mode_sync_reversed) JZ_REG_LCD_VSYNC = 0xFFFFFFFE
   \<and> regmap (fresh_priv jz4740_soc_info False) JZ_REG_LCD_VSYNC = 0
   \<and> length (trace (ingenic_drm_crtc_update_timings hdr0 (fresh_priv jz4740_soc_info False) mode_sync_reversed)) = 7"
  by (simp add: ingenic_drm_crtc_update_timings_def Let_def regmap_write_def regmap_update_bits_def
      crtc_timings_def mode_sync_reversed_def fresh_priv_def hdr0_def)

text \<open>
  C1 (as amended). For every mode with a non-empty active area and a non-empty front porch
  in each direction (\<open>0 < display < sync_start \<le> total\<close>, the fields read as unsigned
  32-bit values), the derived fields satisfy total > data end > data start \<ge> 0, vertically
  and horizontally.
\<close>

theorem timings_strict_order:
  assumes "0 < vdisplay m" "vdisplay m < vsync_start m" "vsync_start m \<le> vtotal m"
      and "0 < hdisplay m" "hdisplay m < hsync_start m" "hsync_start m \<le> htotal m"
  shows "0 \<le> vds (crtc_timings m) \<and> vds (crtc_timings m) < vde (crtc_timings m)
         \<and> vde (crtc_timings m) < vt (crtc_timings m)
         \<and> 0 \<le> hds (crtc_timings m) \<and> hds (crtc_timings m) < hde (crtc_timings m)
         \<and> hde (crtc_timings m) < ht (crtc_timings m)"
proof -
  have v: "vds (crtc_timings m) < vde (crtc_timings m) \<and> vde (crtc_timings m) < vt (crtc_timings m)"
    using assms(1-3) unfolding crtc_timings_def Let_def by simp unat_arith
  have h: "hds (crtc_timings m) < hde (crtc_timings m) \<and> hde (crtc_timings m) < ht (crtc_timings m)"
    using assms(4-6) unfolding crtc_timings_def Let_def by simp unat_arith
  from v h show ?thesis by simp
qed

text \<open>The derived fields of 640x480 with the usual VGA blanking.\<close>

theorem timings_strict_order_witness:
  "vds (crtc_timings mode_vga) = 35 \<and> vde (crtc_timings mode_vga) = 515 \<and> vt (crtc_timings mode_vga) = 525
   \<and> hds (crtc_timings mode_vga) = 144 \<and> hde (crtc_timings mode_vga) = 784 \<and> ht (crtc_timings mode_vga) = 800
   \<and> vds (crtc_timings mode_vga) < vde (crtc_timings mode_vga)
   \<and> vde (crtc_timings mode_vga) < vt (crtc_timings mode_vga)
   \<and> hds (crtc_timings mode_vga) < hde (crtc_timings mode_vga)
   \<and> hde (crtc_timings mode_vga) < ht (crtc_timings mode_vga)"
  using timings_strict_order [of mode_vga]
  by (simp add: crtc_timings_def mode_vga_def)

text \<open>
  C1 as stated fails: 640x480 with the sync pulse starting right after the active area is
  accepted by the commit check, has all its intervals in the usual order and positive
  derived fields, and yet its total equals its data end in both directions.
\<close>

theorem timings_strict_order_counterexample:
  "fst (ingenic_drm_crtc_atomic_check (fresh_priv jz4740_soc_info False)
          (crtc_modeset mode_no_front_porch) plane_full plane_off plane_off) = 0
   \<and> 0 < hdisplay mode_no_front_porch
   \<and> hdisplay mode_no_front_porch \<le> hsync_start mode_no_front_porch
   \<and> hsync_start mode_no_front_porch < hsync_end mode_no_front_porch
   \<and> hsync_end mode_no_front_porch < htotal mode_no_front_porch
   \<and> 0 < vdisplay mode_no_front_porch
   \<and> vdisplay mode_no_front_porch \<le> vsync_start mode_no_front_porch
   \<and> vsync_start mode_no_front_porch < vsync_end mode_no_front_porch
   \<and> vsync_end mode_no_front_porch < vtotal mode_no_front_porch
   \<and> vde (crtc_timings mode_no_front_porch) = 525
   \<and> vt (crtc_timings mode_no_front_porch) = 525
   \<and> \<not> vde (crtc_timings mode_no_front_porch) < vt (crtc_timings mode_no_front_porch)
   \<and> \<not> hde (crtc_timings mode_no_front_porch) < ht (crtc_timings mode_no_front_porch)"
  by (simp add: ingenic_drm_crtc_atomic_check_def drm_atomic_crtc_needs_modeset_def
        crtc_modeset_def mode_no_front_porch_def fresh_priv_def jz4740_soc_info_def
        crtc_timings_def Let_def plane_full_def plane_off_def)


text \<open>What the vertical-blank primitives and the event branch of the flush change.\<close>

lemma vblank_fields:
  "regmap (drm_crtc_arm_vblank_event e p) = regmap p"
  "regmap (drm_crtc_send_vblank_event e p) = regmap p"
  "regmap (drm_crtc_handle_vblank p) = regmap p"
  "trace (drm_crtc_arm_vblank_event e p) = trace p @ [ArmVblankEvent e]"
  "trace (drm_crtc_send_vblank_event e p) = trace p @ [SendVblankEvent e]"
  "trace (drm_crtc_handle_vblank p) = trace p @ [HandleVblank]"
  "vblank_armed (drm_crtc_arm_vblank_event e p) = vblank_armed p @ [e]"
  "vblank_sent (drm_crtc_arm_vblank_event e p) = vblank_sent p"
  "vblank_armed (drm_crtc_send_vblank_event e p) = vblank_armed p"
  "vblank_sent (drm_crtc_send_vblank_event e p) = vblank_sent p @ [e]"
  "vblank_armed (drm_crtc_handle_vblank p) = []"
  "vblank_sent (drm_crtc_handle_vblank p) = vblank_sent p @ vblank_armed p"
  "vblank_count (drm_crtc_handle_vblank p) = vblank_count p + 1"
  by (simp_all add: drm_crtc_arm_vblank_event_def drm_crtc_send_vblank_event_def
        drm_crtc_handle_vblank_def)

lemma regmap_update_bits_regmap:
  "ingenic_drm_writeable_reg r \<Longrightarrow>
   regmap (regmap_update_bits r m v p) = (regmap p)(r := (regmap p r AND NOT m) OR (v AND m))"
  by (simp add: regmap_update_bits_def Let_def)

section \<open>Interrupt handler: results\<close>

text \<open>
  C8. For every status value, the interrupt handler completes and returns
  \<open>IRQ_HANDLED\<close>; afterwards the status register holds the value read with the
  end-of-frame bit cleared and every other bit as it was, and no other register has changed;
  the vertical-blank subsystem is notified (frame counter incremented, armed notifications
  released) exactly when the end-of-frame bit was set in the status read, and nothing else
  happens whatever the other bits are.
\<close>
theorem irq_handler_clears_eof_and_notifies:
  "fst (ingenic_drm_irq_handler h priv) = IRQ_HANDLED
   \<and> regmap (snd (ingenic_drm_irq_handler h priv)) JZ_REG_LCD_STATE
       = regmap priv JZ_REG_LCD_STATE AND NOT (JZ_LCD_STATE_EOF_IRQ h)
   \<and> (\<forall>r. r \<noteq> JZ_REG_LCD_STATE \<longrightarrow>
         regmap (snd (ingenic_drm_irq_handler h priv)) r = regmap priv r)
   \<and> trace (snd (ingenic_drm_irq_handler h priv))
       = trace priv @ [RegUpdateBits JZ_REG_LCD_STATE (JZ_LCD_STATE_EOF_IRQ h) 0]
         @ (if regmap priv JZ_REG_LCD_STATE AND JZ_LCD_STATE_EOF_IRQ h \<noteq> 0
            then [HandleVblank] else [])
   \<and> vblank_count (snd (ingenic_drm_irq_handler h priv))
       = vblank_count priv
         + (if regmap priv JZ_REG_LCD_STATE AND JZ_LCD_STATE_EOF_IRQ h \<noteq> 0 then 1 else 0)
   \<and> vblank_sent (snd (ingenic_drm_irq_handler h priv))
       = vblank_sent priv
         @ (if regmap priv JZ_REG_LCD_STATE AND JZ_LCD_STATE_EOF_IRQ h \<noteq> 0
            then vblank_armed priv else [])"
  by (simp add: ingenic_drm_irq_handler_def Let_def vblank_fields regmap_update_bits_fields
        regmap_update_bits_regmap)

text \<open>
  The handler on status \<open>0xA1\<close> (end of frame and two other bits) and on \<open>0x81\<close>
  (the two other bits only).
\<close>

theorem irq_handler_clears_eof_and_notifies_witness:
  "regmap (snd (ingenic_drm_irq_handler hdr0 (irq_priv 0xA1))) JZ_REG_LCD_STATE = 0x81
   \<and> regmap (snd (ingenic_drm_irq_handler hdr0 (irq_priv 0xA1))) JZ_REG_LCD_CTRL = 0
   \<and> trace (snd (ingenic_drm_irq_handler hdr0 (irq_priv 0xA1)))
        = [RegUpdateBits JZ_REG_LCD_STATE 0x20 0, HandleVblank]
   \<and> vblank_count (snd (ingenic_drm_irq_handler hdr0 (irq_priv 0xA1))) = 1
   \<and> vblank_sent (snd (ingenic_drm_irq_handler hdr0 (irq_priv 0xA1))) = [3]
   \<and> regmap (snd (ingenic_drm_irq_handler hdr0 (irq_priv 0x81))) JZ_REG_LCD_STATE = 0x81
   \<and> trace (snd (ingenic_drm_irq_handler hdr0 (irq_priv 0x81)))
        = [RegUpdateBits JZ_REG_LCD_STATE 0x20 0]
   \<and> vblank_count (snd (ingenic_drm_irq_handler hdr0 (irq_priv 0x81))) = 0"
  using irq_handler_clears_eof_and_notifies [of hdr0 "irq_priv 0xA1"]
        irq_handler_clears_eof_and_notifies [of hdr0 "irq_priv 0x81"]
  by (simp add: irq_priv_def fresh_priv_def hdr0_def)


lemma flush_event_fields:
  "regmap (flush_event g e p) = regmap p"
  "trace (flush_event g e p)
     = trace p @ [SpinLockIrq, VblankGet,
                  if g = 0 then ArmVblankEvent e else SendVblankEvent e, SpinUnlockIrq]"
  "vblank_armed (flush_event g e p) = vblank_armed p @ (if g = 0 then [e] else [])"
  "vblank_sent (flush_event g e p) = vblank_sent p @ (if g = 0 then [] else [e])"
  "vblank_count (flush_event g e p) = vblank_count p"
  by (simp_all add: flush_event_def Let_def emit_fields vblank_fields
        drm_crtc_arm_vblank_event_def drm_crtc_send_vblank_event_def)


lemma flush_with_event:
  assumes "event state = Some e"
  shows "vblank_armed (fst (ingenic_drm_crtc_atomic_flush h g priv state))
           = vblank_armed priv @ (if g = 0 then [e] else [])"
    and "vblank_sent (fst (ingenic_drm_crtc_atomic_flush h g priv state))
           = vblank_sent priv @ (if g = 0 then [] else [e])"
    and "event (snd (ingenic_drm_crtc_atomic_flush h g priv state)) = None"
    and "trace (fst (ingenic_drm_crtc_atomic_flush h g priv state))
           = trace (fst (ingenic_drm_crtc_atomic_flush h g priv (state\<lparr>event := None\<rparr>)))
             @ [SpinLockIrq, VblankGet,
                if g = 0 then ArmVblankEvent e else SendVblankEvent e, SpinUnlockIrq]"
  using assms
  by (simp_all add: ingenic_drm_crtc_atomic_flush_def Let_def flush_event_fields
        emit_fields update_timings_fields drm_atomic_crtc_needs_modeset_def)

lemma flush_fast_update:
  assumes "\<not> drm_atomic_crtc_needs_modeset state"
  shows "regmap (fst (ingenic_drm_crtc_atomic_flush h g priv state)) = regmap priv"
    and "trace (fst (ingenic_drm_crtc_atomic_flush h g priv state))
          = trace priv
            @ (case event state of
                 None \<Rightarrow> []
               | Some e \<Rightarrow> [SpinLockIrq, VblankGet,
                            if g = 0 then ArmVblankEvent e else SendVblankEvent e,
                            SpinUnlockIrq])"
  using assms
  by (cases "event state";
      simp add: ingenic_drm_crtc_atomic_flush_def Let_def flush_event_fields)+

section \<open>Commit controller: results\<close>

text \<open>
  C9. In a flush where no modeset is in effect, no register changes and the trace gains no
  register access and no clock request: it gains nothing at all when the transaction carries
  no notification. Whether or not a modeset is in effect, when the transaction carries a
  notification the flush ends with: take the event lock, ask for a vertical-blank reference,
  arm the notification when the reference is granted and send it at once otherwise, release
  the lock; the notification is removed from the CRTC state.
\<close>
theorem flush_fast_update_and_event:
  "(\<not> drm_atomic_crtc_needs_modeset state \<longrightarrow>
      regmap (fst (ingenic_drm_crtc_atomic_flush h g priv state)) = regmap priv
      \<and> trace (fst (ingenic_drm_crtc_atomic_flush h g priv state))
          = trace priv
            @ (case event state of
                 None \<Rightarrow> []
               | Some e \<Rightarrow> [SpinLockIrq, VblankGet,
                            if g = 0 then ArmVblankEvent e else SendVblankEvent e,
                            SpinUnlockIrq]))
   \<and> (event state = Some e \<longrightarrow>
        (\<exists>pre. trace (fst (ingenic_drm_crtc_atomic_flush h g priv state))
                 = pre @ [SpinLockIrq, VblankGet,
                          if g = 0 then ArmVblankEvent e else SendVblankEvent e,
                          SpinUnlockIrq])
        \<and> vblank_armed (fst (ingenic_drm_crtc_atomic_flush h g priv state))
            = vblank_armed priv @ (if g = 0 then [e] else [])
        \<and> vblank_sent (fst (ingenic_drm_crtc_atomic_flush h g priv state))
            = vblank_sent priv @ (if g = 0 then [] else [e])
        \<and> event (snd (ingenic_drm_crtc_atomic_flush h g priv state)) = None)"
proof (intro conjI impI)
  assume "\<not> drm_atomic_crtc_needs_modeset state"
  then show "regmap (fst (ingenic_drm_crtc_atomic_flush h g priv state)) = regmap priv"
    and "trace (fst (ingenic_drm_crtc_atomic_flush h g priv state))
          = trace priv
            @ (case event state of
                 None \<Rightarrow> []
               | Some e \<Rightarrow> [SpinLockIrq, VblankGet,
                            if g = 0 then ArmVblankEvent e else SendVblankEvent e,
                            SpinUnlockIrq])"
    by (rule flush_fast_update)+
next
  assume ev: "event state = Some e"
  show "\<exists>pre. trace (fst (ingenic_drm_crtc_atomic_flush h g priv state))
                 = pre @ [SpinLockIrq, VblankGet,
                          if g = 0 then ArmVblankEvent e else SendVblankEvent e,
                          SpinUnlockIrq]"
    using flush_with_event(4) [OF ev] by blast
  show "vblank_armed (fst (ingenic_drm_crtc_atomic_flush h g priv state))
            = vblank_armed priv @ (if g = 0 then [e] else [])"
    by (rule flush_with_event(1) [OF ev])
  show "vblank_sent (fst (ingenic_drm_crtc_atomic_flush h g priv state))
            = vblank_sent priv @ (if g = 0 then [] else [e])"
    by (rule flush_with_event(2) [OF ev])
  show "event (snd (ingenic_drm_crtc_atomic_flush h g priv state)) = None"
    by (rule flush_with_event(3) [OF ev])
qed

text \<open>A buffer swap carrying event 7 on a JZ4770, the vertical-blank reference granted.\<close>

theorem flush_fast_update_and_event_witness:
  "\<not> drm_atomic_crtc_needs_modeset (crtc_fast_event mode_vga)
   \<and> event (crtc_fast_event mode_vga) = Some 7
   \<and> regmap (fst (ingenic_drm_crtc_atomic_flush hdr0 0 (fresh_priv jz4770_soc_info True)
                     (crtc_fast_event mode_vga))) JZ_REG_LCD_VSYNC = 0
   \<and> trace (fst (ingenic_drm_crtc_atomic_flush hdr0 0 (fresh_priv jz4770_soc_info True)
                     (crtc_fast_event mode_vga)))
       = [SpinLockIrq, VblankGet, ArmVblankEvent 7, SpinUnlockIrq]
   \<and> vblank_armed (fst (ingenic_drm_crtc_atomic_flush hdr0 0 (fresh_priv jz4770_soc_info True)
                     (crtc_fast_event mode_vga))) = [7]
   \<and> event (snd (ingenic_drm_crtc_atomic_flush hdr0 0 (fresh_priv jz4770_soc_info True)
                     (crtc_fast_event mode_vga))) = None"
  using flush_fast_update_and_event [of "crtc_fast_event mode_vga" hdr0 0
          "fresh_priv jz4770_soc_info True" 7]
  by (simp add: crtc_fast_event_def drm_atomic_crtc_needs_modeset_def fresh_priv_def)

text \<open>The commit check accepts every transaction that is not a modeset, as it is.\<close>

lemma crtc_check_fast_update:
  "\<not> drm_atomic_crtc_needs_modeset state \<Longrightarrow>
   ingenic_drm_crtc_atomic_check priv state f1_state f0_state ipu_state = (0, state)"
  by (simp add: ingenic_drm_crtc_atomic_check_def)

text \<open>
  On overlay-capable hardware a plane that gains its buffer is classified as a modeset by
  its plane check, and a modeset with F1 and the image-processing plane both live is
  refused by the commit check.
\<close>

lemma plane_check_enabling_requests_modeset:
  assumes "has_osd (soc_info priv)"
      and "fb (plane_state plane) = None" and "fb state \<noteq> None"
      and "fb_crtc_consistent state"
      and "helper state crtc_state True True = 0"
  shows "ingenic_drm_plane_atomic_check helper priv plane state (Some crtc_state)
           = (0, Some (crtc_state\<lparr>mode_changed := True\<rparr>))"
  using assms
  by (auto simp add: ingenic_drm_plane_atomic_check_def fb_crtc_consistent_def Let_def
        split: option.splits)

lemma crtc_check_modeset_f1_ipu:
  assumes "drm_atomic_crtc_needs_modeset state"
      and "has_osd (soc_info priv)" and "ipu_plane priv"
      and "fb f1_state \<noteq> None" and "fb ipu_state \<noteq> None"
  shows "fst (ingenic_drm_crtc_atomic_check priv state f1_state f0_state ipu_state) < 0"
    and "snd (ingenic_drm_crtc_atomic_check priv state f1_state f0_state ipu_state) = state"
  using assms by (simp_all add: ingenic_drm_crtc_atomic_check_def Let_def EINVAL_def)

text \<open>
  C2 (as amended). On overlay-capable hardware with an image-processing plane, take any
  transaction in which the F1 plane (the plane the driver registers as primary) and the
  image-processing plane both end with a buffer. If the transaction is a modeset, the commit
  check returns a negative error code and leaves the CRTC state unchanged. If F1 gains its
  buffer in the transaction, the plane check of F1 turns the transaction into a modeset, and
  the commit check then refuses it in the same way. The plane F0, which the driver registers
  as the overlay, is not part of the exclusion.
\<close>

theorem crtc_check_rejects_f1_with_ipu:
  assumes "has_osd (soc_info priv)" and "ipu_plane priv"
      and "fb f1_state \<noteq> None" and "fb ipu_state \<noteq> None"
  shows "(drm_atomic_crtc_needs_modeset state \<longrightarrow>
            fst (ingenic_drm_crtc_atomic_check priv state f1_state f0_state ipu_state) < 0
            \<and> snd (ingenic_drm_crtc_atomic_check priv state f1_state f0_state ipu_state)
                = state)
         \<and> (fb (plane_state f1_plane) = None \<and> fb_crtc_consistent f1_state
              \<and> helper f1_state state True True = 0 \<longrightarrow>
            ingenic_drm_plane_atomic_check helper priv f1_plane f1_state (Some state)
              = (0, Some (state\<lparr>mode_changed := True\<rparr>))
            \<and> fst (ingenic_drm_crtc_atomic_check priv (state\<lparr>mode_changed := True\<rparr>)
                      f1_state f0_state ipu_state) < 0
            \<and> snd (ingenic_drm_crtc_atomic_check priv (state\<lparr>mode_changed := True\<rparr>)
                      f1_state f0_state ipu_state) = state\<lparr>mode_changed := True\<rparr>)"
proof (intro conjI impI)
  assume "drm_atomic_crtc_needs_modeset state"
  from crtc_check_modeset_f1_ipu [OF this assms]
  show "fst (ingenic_drm_crtc_atomic_check priv state f1_state f0_state ipu_state) < 0"
    and "snd (ingenic_drm_crtc_atomic_check priv state f1_state f0_state ipu_state) = state"
    by simp_all
next
  assume en: "fb (plane_state f1_plane) = None \<and> fb_crtc_consistent f1_state
              \<and> helper f1_state state True True = 0"
  with assms
  show "ingenic_drm_plane_atomic_check helper priv f1_plane f1_state (Some state)
          = (0, Some (state\<lparr>mode_changed := True\<rparr>))"
    by (intro plane_check_enabling_requests_modeset) simp_all
  have m: "drm_atomic_crtc_needs_modeset (state\<lparr>mode_changed := True\<rparr>)"
    by (simp add: drm_atomic_crtc_needs_modeset_def)
  from crtc_check_modeset_f1_ipu [OF m assms]
  show "fst (ingenic_drm_crtc_atomic_check priv (state\<lparr>mode_changed := True\<rparr>)
               f1_state f0_state ipu_state) < 0"
    and "snd (ingenic_drm_crtc_atomic_check priv (state\<lparr>mode_changed := True\<rparr>)
               f1_state f0_state ipu_state) = state\<lparr>mode_changed := True\<rparr>"
    by simp_all
qed

text \<open>
  On a JZ4770: a modeset with F1 and the image-processing plane live, and a buffer swap that
  switches F1 on while the image-processing plane is live.
\<close>

theorem crtc_check_rejects_f1_with_ipu_witness:
  "has_osd (soc_info (fresh_priv jz4770_soc_info True))
   \<and> ipu_plane (fresh_priv jz4770_soc_info True)
   \<and> fb plane_full \<noteq> None
   \<and> drm_atomic_crtc_needs_modeset (crtc_modeset mode_vga)
   \<and> fst (ingenic_drm_crtc_atomic_check (fresh_priv jz4770_soc_info True)
            (crtc_modeset mode_vga) plane_full plane_off plane_full) = - 22
   \<and> snd (ingenic_drm_crtc_atomic_check (fresh_priv jz4770_soc_info True)
            (crtc_modeset mode_vga) plane_full plane_off plane_full) = crtc_modeset mode_vga
   \<and> fb (plane_state (primary_plane plane_off)) = None
   \<and> fb_crtc_consistent plane_full
   \<and> no_scaling_check plane_full (crtc_fast mode_vga) True True = 0
   \<and> \<not> drm_atomic_crtc_needs_modeset (crtc_fast mode_vga)
   \<and> ingenic_drm_plane_atomic_check no_scaling_check (fresh_priv jz4770_soc_info True)
        (primary_plane plane_off) plane_full (Some (crtc_fast mode_vga))
       = (0, Some (crtc_modeset mode_vga))
   \<and> fst (ingenic_drm_crtc_atomic_check (fresh_priv jz4770_soc_info True)
            ((crtc_fast mode_vga)\<lparr>mode_changed := True\<rparr>) plane_full plane_off plane_full) = - 22"
  using crtc_check_rejects_f1_with_ipu [of "fresh_priv jz4770_soc_info True" plane_full
          plane_full "crtc_modeset mode_vga" plane_off "primary_plane plane_off"
          no_scaling_check]
        crtc_check_rejects_f1_with_ipu [of "fresh_priv jz4770_soc_info True" plane_full
          plane_full "crtc_fast mode_vga" plane_off "primary_plane plane_off"
          no_scaling_check]
  by (simp add: ingenic_drm_crtc_atomic_check_def Let_def EINVAL_def crtc_modeset_def
        crtc_fast_def drm_atomic_crtc_needs_modeset_def fresh_priv_def jz4770_soc_info_def
        mode_vga_def plane_full_def plane_off_def primary_plane_def fb_crtc_consistent_def
        no_scaling_check_def)

text \<open>
  C2 as stated fails: a modeset on a JZ4770 in which the overlay plane F0 and the
  image-processing plane both end with a buffer, F1 being off, is accepted.
\<close>

theorem crtc_check_accepts_f0_with_ipu_counterexample:
  "has_osd (soc_info (fresh_priv jz4770_soc_info True))
   \<and> ipu_plane (fresh_priv jz4770_soc_info True)
   \<and> drm_atomic_crtc_needs_modeset (crtc_modeset mode_vga)
   \<and> fb plane_off = None
   \<and> fb plane_full \<noteq> None
   \<and> ingenic_drm_crtc_atomic_check (fresh_priv jz4770_soc_info True)
        (crtc_modeset mode_vga) plane_off plane_full plane_full = (0, crtc_modeset mode_vga)"
  by (simp add: ingenic_drm_crtc_atomic_check_def Let_def crtc_modeset_def
        drm_atomic_crtc_needs_modeset_def fresh_priv_def jz4770_soc_info_def mode_vga_def
        plane_full_def plane_off_def)











section \<open>Disabling the controller: results\<close>

text \<open>
  The poll with a timeout argument of 0: when it returns, it returns 0 with a value that
  satisfies the condition; it returns as soon as the hardware shows such a value; and it
  never returns when the hardware never does.
\<close>

lemma poll_without_timeout_result:
  assumes "regmap_read_poll_timeout reads cond sleep_us timeout_us now k = Some y"
  shows "timeout_us = 0 \<longrightarrow> fst y = 0 \<and> cond (snd y) \<and> (\<exists>j. snd y = reads (k + j))"
proof (rule regmap_read_poll_timeout.raw_induct
         [where P = "\<lambda>reads cond sleep_us timeout_us now k y.
                       timeout_us = 0 \<longrightarrow>
                       fst y = 0 \<and> cond (snd y) \<and> (\<exists>j. snd y = reads (k + j))",
          OF _ assms])
  fix f reads cond sleep_us timeout_us now k and y :: "int \<times> u32"
  assume IH: "\<And>reads cond sleep_us timeout_us now k y.
                f reads cond sleep_us timeout_us now k = Some y \<Longrightarrow>
                timeout_us = 0 \<longrightarrow>
                fst y = 0 \<and> cond (snd y) \<and> (\<exists>j. snd y = reads (k + j))"
    and step: "(if cond (reads k) then Some (0, reads k)
                else if timeout_us \<noteq> 0 \<and> timeout_us < now
                then Some (if cond (reads (Suc k)) then 0 else - ETIMEDOUT, reads (Suc k))
                else f reads cond sleep_us timeout_us
                       (now + (if sleep_us \<noteq> 0 then drop_bit 2 sleep_us + 1 else 1)) (Suc k))
               = Some y"
  show "timeout_us = 0 \<longrightarrow> fst y = 0 \<and> cond (snd y) \<and> (\<exists>j. snd y = reads (k + j))"
  proof (cases "cond (reads k)")
    case True
    with step have "y = (0, reads k)" by simp
    with True show ?thesis by (auto intro: exI [of _ 0])
  next
    case False
    show ?thesis
    proof
      assume t: "timeout_us = 0"
      with False step
      have "f reads cond sleep_us timeout_us
              (now + (if sleep_us \<noteq> 0 then drop_bit 2 sleep_us + 1 else 1)) (Suc k) = Some y"
        by simp
      from IH [OF this] t obtain j
        where "fst y = 0" "cond (snd y)" "snd y = reads (Suc k + j)" by blast
      then show "fst y = 0 \<and> cond (snd y) \<and> (\<exists>j. snd y = reads (k + j))"
        by (auto intro: exI [of _ "Suc j"])
    qed
  qed
qed

lemma poll_without_timeout_returns:
  "cond (reads (k + n)) \<Longrightarrow>
   \<exists>v. regmap_read_poll_timeout reads cond sleep_us 0 now k = Some (0, v) \<and> cond v"
proof (induction n arbitrary: k now)
  case 0
  then show ?case by (subst regmap_read_poll_timeout.simps) simp
next
  case (Suc n)
  show ?case
  proof (cases "cond (reads k)")
    case True
    then show ?thesis by (subst regmap_read_poll_timeout.simps) simp
  next
    case False
    from Suc.prems have "cond (reads (Suc k + n))" by simp
    from Suc.IH [OF this, of "now + (if sleep_us \<noteq> 0 then drop_bit 2 sleep_us + 1 else 1)"]
    obtain v where "regmap_read_poll_timeout reads cond sleep_us 0
                      (now + (if sleep_us \<noteq> 0 then drop_bit 2 sleep_us + 1 else 1)) (Suc k)
                    = Some (0, v)" and "cond v" by blast
    with False show ?thesis by (subst regmap_read_poll_timeout.simps) simp
  qed
qed

lemma poll_without_timeout_hangs:
  assumes "\<forall>k. \<not> cond (reads k)"
  shows "regmap_read_poll_timeout reads cond sleep_us 0 now k = None"
proof (cases "regmap_read_poll_timeout reads cond sleep_us 0 now k")
  case None
  then show ?thesis .
next
  case (Some y)
  from poll_without_timeout_result [OF Some] assms show ?thesis by auto
qed

text \<open>
  C6 (as amended). The disable transition turns vertical-blank handling off, sets the
  disable-request bit and polls the disabled-status bit with a sleep of 1000 microseconds
  and no timeout (timeout argument 0). It returns exactly when the hardware at some read
  reports disabled; the status register then shows the disabled bit, and the transition has
  done nothing else: it has no return value and reports nothing to the caller. When the
  hardware never reports disabled it does not return.
\<close>

theorem crtc_disable_polls_without_timeout:
  "(ingenic_drm_crtc_atomic_disable status h priv \<noteq> None) = (\<exists>k. disabled_cond h (status k))
   \<and> (\<forall>p'. ingenic_drm_crtc_atomic_disable status h priv = Some p' \<longrightarrow>
          disabled_cond h (regmap p' JZ_REG_LCD_STATE)
          \<and> trace p' = trace priv @ [VblankOff,
                RegUpdateBits JZ_REG_LCD_CTRL (JZ_LCD_CTRL_DISABLE h) (JZ_LCD_CTRL_DISABLE h)])"
proof (cases "\<exists>k. disabled_cond h (status k)")
  case True
  then obtain k where "disabled_cond h (status (0 + k))" by auto
  from poll_without_timeout_returns
         [where cond = "disabled_cond h" and reads = status and k = 0 and n = k
            and sleep_us = 1000 and now = 0, OF this]
  obtain v where "regmap_read_poll_timeout status (disabled_cond h) 1000 0 0 0 = Some (0, v)"
    and "disabled_cond h v" by blast
  with True show ?thesis
    by (auto simp add: ingenic_drm_crtc_atomic_disable_def Let_def emit_fields
          regmap_update_bits_fields)
next
  case False
  then have "regmap_read_poll_timeout status (disabled_cond h) 1000 0 0 0 = None"
    by (intro poll_without_timeout_hangs) simp
  with False show ?thesis
    by (simp add: ingenic_drm_crtc_atomic_disable_def Let_def)
qed

text \<open>The disable transition on a JZ4740 that reports disabled at the third read.\<close>

theorem crtc_disable_polls_without_timeout_witness:
  "disabled_cond hdr0 (status_disabled_late 2)
   \<and> ingenic_drm_crtc_atomic_disable status_disabled_late hdr0 (fresh_priv jz4740_soc_info False)
       \<noteq> None
   \<and> regmap (the (ingenic_drm_crtc_atomic_disable status_disabled_late hdr0
                      (fresh_priv jz4740_soc_info False))) JZ_REG_LCD_STATE = 0x81
   \<and> trace (the (ingenic_drm_crtc_atomic_disable status_disabled_late hdr0
                     (fresh_priv jz4740_soc_info False)))
       = [VblankOff, RegUpdateBits JZ_REG_LCD_CTRL 0x10 0x10]"
proof -
  have c: "disabled_cond hdr0 (status_disabled_late 2)"
    by (simp add: disabled_cond_def status_disabled_late_def hdr0_def)
  have p: "regmap_read_poll_timeout status_disabled_late (disabled_cond hdr0) 1000 0 0 0
             = Some (0, 0x81)"
    by (simp add: regmap_read_poll_timeout.simps disabled_cond_def status_disabled_late_def
          hdr0_def)
  from c have "\<exists>k. disabled_cond hdr0 (status_disabled_late k)" ..
  with crtc_disable_polls_without_timeout [of status_disabled_late hdr0
         "fresh_priv jz4740_soc_info False"] c p
  show ?thesis
    by (simp add: ingenic_drm_crtc_atomic_disable_def Let_def emit_fields
          regmap_update_bits_fields fresh_priv_def hdr0_def)
qed

text \<open>
  C6 as stated fails: on hardware that never sets the disabled bit the disable transition
  does not terminate and so reports no failure.
\<close>

theorem crtc_disable_hangs_counterexample:
  "ingenic_drm_crtc_atomic_disable status_never_disabled hdr0 (fresh_priv jz4740_soc_info False)
     = None"
proof -
  have "\<forall>k. \<not> disabled_cond hdr0 (status_never_disabled k)"
    by (simp add: disabled_cond_def status_never_disabled_def hdr0_def)
  then have "regmap_read_poll_timeout status_never_disabled (disabled_cond hdr0) 1000 0 0 0 = None"
    by (rule poll_without_timeout_hangs)
  then show ?thesis
    by (simp add: ingenic_drm_crtc_atomic_disable_def Let_def)
qed


section \<open>Plane check: results\<close>

text \<open>
  On single-plane hardware the plane check never touches the CRTC state, and a plane check
  that fails never does either.
\<close>

lemma plane_check_single_plane_never_classifies:
  "\<not> has_osd (soc_info priv) \<Longrightarrow>
   snd (ingenic_drm_plane_atomic_check helper priv plane state existing) = existing"
  by (simp add: ingenic_drm_plane_atomic_check_def Let_def split: option.splits)

lemma plane_check_rejected_keeps_state:
  "fst (ingenic_drm_plane_atomic_check helper priv plane state existing) \<noteq> 0 \<Longrightarrow>
   snd (ingenic_drm_plane_atomic_check helper priv plane state existing) = existing"
  by (auto simp add: ingenic_drm_plane_atomic_check_def Let_def split: option.splits if_splits)

text \<open>
  C3 (as amended). On overlay-capable hardware, for every plane update whose old and new
  states are consistent and which the geometry helper accepts, the plane check succeeds and
  requests a full modeset exactly when the plane goes from no buffer to a buffer, from a
  buffer to none, or changes position, size or format while live; otherwise it leaves the
  CRTC state as it was. In particular an update that changes none of these is not classified
  as a modeset by the plane check.
\<close>

theorem plane_check_modeset_classification:
  assumes "has_osd (soc_info priv)"
      and "fb_crtc_consistent (plane_state plane)" and "fb_crtc_consistent state"
      and "helper state crtc_state True True = 0"
  shows "ingenic_drm_plane_atomic_check helper priv plane state (Some crtc_state)
           = (0, Some (if fb_presence_changed (plane_state plane) state
                          \<or> live_plane_changed (plane_state plane) state
                       then crtc_state\<lparr>mode_changed := True\<rparr> else crtc_state))"
proof (cases "fb (plane_state plane)")
  case None
  note old = None
  show ?thesis
  proof (cases "fb state")
    case None
    with old assms show ?thesis
      by (simp add: ingenic_drm_plane_atomic_check_def fb_crtc_consistent_def
            fb_presence_changed_def live_plane_changed_def)
  next
    case (Some f)
    with old assms show ?thesis
      by (auto simp add: ingenic_drm_plane_atomic_check_def fb_crtc_consistent_def
            fb_presence_changed_def live_plane_changed_def Let_def)
  qed
next
  case (Some f_old)
  note old = Some
  show ?thesis
  proof (cases "fb state")
    case None
    with old assms show ?thesis
      by (auto simp add: ingenic_drm_plane_atomic_check_def fb_crtc_consistent_def
            fb_presence_changed_def live_plane_changed_def Let_def)
  next
    case (Some f)
    with old assms show ?thesis
      by (auto simp add: ingenic_drm_plane_atomic_check_def fb_crtc_consistent_def
            fb_presence_changed_def live_plane_changed_def Let_def)
  qed
qed

text \<open>
  On a JZ4770: switching the primary plane on is classified as a modeset; panning a live
  plane inside its buffer is not.
\<close>

theorem plane_check_modeset_classification_witness:
  "has_osd (soc_info (fresh_priv jz4770_soc_info True))
   \<and> fb_crtc_consistent plane_off \<and> fb_crtc_consistent plane_full
   \<and> no_scaling_check plane_full (crtc_fast mode_vga) True True = 0
   \<and> fb_presence_changed plane_off plane_full
   \<and> ingenic_drm_plane_atomic_check no_scaling_check (fresh_priv jz4770_soc_info True)
        (primary_plane plane_off) plane_full (Some (crtc_fast mode_vga))
       = (0, Some (crtc_modeset mode_vga))
   \<and> \<not> fb_presence_changed plane_full plane_full_panned
   \<and> \<not> live_plane_changed plane_full plane_full_panned
   \<and> ingenic_drm_plane_atomic_check no_scaling_check (fresh_priv jz4770_soc_info True)
        (primary_plane plane_full) plane_full_panned (Some (crtc_fast mode_vga))
       = (0, Some (crtc_fast mode_vga))"
  using plane_check_modeset_classification [of "fresh_priv jz4770_soc_info True"
          "primary_plane plane_off" plane_full no_scaling_check "crtc_fast mode_vga"]
        plane_check_modeset_classification [of "fresh_priv jz4770_soc_info True"
          "primary_plane plane_full" plane_full_panned no_scaling_check "crtc_fast mode_vga"]
  by (simp add: fb_crtc_consistent_def fb_presence_changed_def live_plane_changed_def
        no_scaling_check_def primary_plane_def plane_off_def plane_full_def
        plane_full_panned_def crtc_fast_def crtc_modeset_def fresh_priv_def
        jz4770_soc_info_def mode_vga_def)

text \<open>
  C3 as stated fails: on the single-plane JZ4740 the plane goes from no buffer to a buffer
  and the plane check accepts without requesting a modeset.
\<close>

theorem plane_check_single_plane_counterexample:
  "\<not> has_osd (soc_info (fresh_priv jz4740_soc_info False))
   \<and> fb_presence_changed plane_off plane_full
   \<and> ingenic_drm_plane_atomic_check no_scaling_check (fresh_priv jz4740_soc_info False)
        (primary_plane plane_off) plane_full (Some (crtc_fast mode_vga))
       = (0, Some (crtc_fast mode_vga))
   \<and> \<not> drm_atomic_crtc_needs_modeset (crtc_fast mode_vga)"
  by (simp add: ingenic_drm_plane_atomic_check_def Let_def fb_presence_changed_def
        no_scaling_check_def primary_plane_def plane_off_def plane_full_def
        crtc_fast_def fresh_priv_def jz4740_soc_info_def mode_vga_def
        drm_atomic_crtc_needs_modeset_def)

text \<open>
  C7 (as amended). On single-plane hardware, for every update of a plane that is bound to a
  CRTC whose state is in the transaction, the plane check succeeds exactly when the geometry
  helper accepts, the horizontal source offset is zero and the integer part of the source
  size equals the destination size. So it rejects every update with a horizontal source
  offset or a mismatched size, and it accepts a full-screen update whatever its vertical
  source offset is.
\<close>

theorem plane_check_single_plane_geometry:
  assumes "\<not> has_osd (soc_info priv)"
      and "crtc state \<noteq> None \<or> crtc (plane_state plane) \<noteq> None"
  shows "(fst (ingenic_drm_plane_atomic_check helper priv plane state (Some crtc_state)) = 0)
         = (helper state crtc_state False True = 0
            \<and> src_x state = 0
            \<and> drop_bit 16 (src_w state) = crtc_w state
            \<and> drop_bit 16 (src_h state) = crtc_h state)"
  using assms
  by (auto simp add: ingenic_drm_plane_atomic_check_def Let_def EINVAL_def
        split: option.splits)

text \<open>
  On a JZ4740: a full-screen update shifted by one pixel in the buffer is rejected, the
  unshifted one is accepted.
\<close>

theorem plane_check_single_plane_geometry_witness:
  "\<not> has_osd (soc_info (fresh_priv jz4740_soc_info False))
   \<and> crtc plane_full_shifted \<noteq> None
   \<and> no_scaling_check plane_full_shifted (crtc_fast mode_vga) False True = 0
   \<and> src_x plane_full_shifted \<noteq> 0
   \<and> fst (ingenic_drm_plane_atomic_check no_scaling_check (fresh_priv jz4740_soc_info False)
            (primary_plane plane_full) plane_full_shifted (Some (crtc_fast mode_vga))) = - 22
   \<and> fst (ingenic_drm_plane_atomic_check no_scaling_check (fresh_priv jz4740_soc_info False)
            (primary_plane plane_full) plane_full (Some (crtc_fast mode_vga))) = 0"
  using plane_check_single_plane_geometry [of "fresh_priv jz4740_soc_info False"
          plane_full_shifted "primary_plane plane_full" no_scaling_check "crtc_fast mode_vga"]
        plane_check_single_plane_geometry [of "fresh_priv jz4740_soc_info False"
          plane_full "primary_plane plane_full" no_scaling_check "crtc_fast mode_vga"]
  by (simp add: ingenic_drm_plane_atomic_check_def Let_def EINVAL_def ERANGE_def
        no_scaling_check_def primary_plane_def plane_full_def plane_full_shifted_def
        crtc_fast_def fresh_priv_def jz4740_soc_info_def mode_vga_def)

text \<open>
  C7 as stated fails: on the JZ4740 a full-screen update that starts one line down in its
  buffer has a nonzero source offset and is accepted.
\<close>

theorem plane_check_vertical_offset_counterexample:
  "\<not> has_osd (soc_info (fresh_priv jz4740_soc_info False))
   \<and> src_y plane_full_panned = 0x10000
   \<and> fst (ingenic_drm_plane_atomic_check no_scaling_check (fresh_priv jz4740_soc_info False)
            (primary_plane plane_full) plane_full_panned (Some (crtc_fast mode_vga))) = 0"
  by (simp add: ingenic_drm_plane_atomic_check_def Let_def EINVAL_def ERANGE_def
        no_scaling_check_def primary_plane_def plane_full_def plane_full_panned_def
        crtc_fast_def fresh_priv_def jz4740_soc_info_def mode_vga_def)

section \<open>Descriptor chain: results\<close>

text \<open>What enabling, configuring and updating a plane do to the descriptors.\<close>

lemma plane_enable_hwdesc:
  "dma_hwdesc (ingenic_drm_plane_enable h p plane) = dma_hwdesc p"
  "dma_hwdesc_phys (ingenic_drm_plane_enable h p plane) = dma_hwdesc_phys p"
  "soc_info (ingenic_drm_plane_enable h p plane) = soc_info p"
  by (simp_all add: ingenic_drm_plane_enable_def Let_def regmap_update_bits_fields)

lemma plane_config_hwdesc:
  "dma_hwdesc (ingenic_drm_plane_config h p plane fourcc) = dma_hwdesc p"
  "dma_hwdesc_phys (ingenic_drm_plane_config h p plane fourcc) = dma_hwdesc_phys p"
  by (simp_all add: ingenic_drm_plane_config_def Let_def plane_enable_hwdesc
        regmap_update_bits_fields regmap_write_fields)

lemma plane_update_hwdesc:
  "dma_hwdesc_phys (ingenic_drm_plane_atomic_update h ga priv plane cs) = dma_hwdesc_phys priv"
  "dma_hwdesc (ingenic_drm_plane_atomic_update h ga priv plane cs) =
     (case fb (plane_state plane) of
        None \<Rightarrow> dma_hwdesc priv
      | Some f \<Rightarrow>
          (dma_hwdesc priv)(hwdesc_idx priv plane :=
             (dma_hwdesc priv (hwdesc_idx priv plane))
               \<lparr>addr := ga f (plane_state plane),
                cmd := (drop_bit 16 (src_w (plane_state plane))
                        * drop_bit 16 (src_h (plane_state plane)) * ucast (cpp0 f) div 4)
                       OR JZ_LCD_CMD_EOF_IRQ h\<rparr>))"
  by (simp_all add: ingenic_drm_plane_atomic_update_def Let_def plane_config_hwdesc
        emit_fields hwdesc_idx_def split: option.splits)

text \<open>
  When both allocations succeed, the bind leaves each descriptor pointing to its own bus
  address and carrying its tag.
\<close>

lemma bind_establishes_hwdesc_inv:
  "bind_dma_hwdesc alloc0 alloc1 priv = Inr p \<Longrightarrow>
   hwdesc_inv p \<and> dma_hwdesc_phys p 0 = the alloc0 \<and> dma_hwdesc_phys p 1 = the alloc1"
  by (auto simp add: bind_dma_hwdesc_def init_hwdesc_def Let_def hwdesc_inv_def
        split: option.splits)

text \<open>
  C10. Every plane update preserves the descriptor chain set up by the bind: afterwards each
  descriptor still has its next-pointer equal to its own bus address and the tag given at
  initialisation; the bus address of every plane index is unchanged; in every descriptor the
  next-pointer and the tag are what they were, so only the buffer address and the command
  word can differ; and the descriptor of the other plane index is untouched.
\<close>

theorem plane_update_keeps_descriptor_chain:
  assumes "hwdesc_inv priv"
  shows "hwdesc_inv (ingenic_drm_plane_atomic_update h ga priv plane cs)
     \<and> dma_hwdesc_phys (ingenic_drm_plane_atomic_update h ga priv plane cs)
         = dma_hwdesc_phys priv
     \<and> (\<forall>i. next (dma_hwdesc (ingenic_drm_plane_atomic_update h ga priv plane cs) i)
               = next (dma_hwdesc priv i)
            \<and> desc_id (dma_hwdesc (ingenic_drm_plane_atomic_update h ga priv plane cs) i)
               = desc_id (dma_hwdesc priv i))
     \<and> (\<forall>i. i \<noteq> hwdesc_idx priv plane \<longrightarrow>
            dma_hwdesc (ingenic_drm_plane_atomic_update h ga priv plane cs) i
              = dma_hwdesc priv i)"
proof -
  let ?p = "ingenic_drm_plane_atomic_update h ga priv plane cs"
  have phys: "dma_hwdesc_phys ?p = dma_hwdesc_phys priv"
    by (rule plane_update_hwdesc(1))
  have kept: "next (dma_hwdesc ?p i) = next (dma_hwdesc priv i)
              \<and> desc_id (dma_hwdesc ?p i) = desc_id (dma_hwdesc priv i)" for i
    by (simp add: plane_update_hwdesc(2) split: option.splits)
  have other: "i \<noteq> hwdesc_idx priv plane \<Longrightarrow> dma_hwdesc ?p i = dma_hwdesc priv i" for i
    by (simp add: plane_update_hwdesc(2) split: option.splits)
  have inv: "hwdesc_inv ?p"
    using assms kept [of 0] kept [of 1] phys by (simp add: hwdesc_inv_def)
  from inv phys kept other show ?thesis by blast
qed


text \<open>
  An update of the primary plane with a 640x480 RGB565 buffer on a JZ4770 whose descriptors
  sit at \<open>0x01000000\<close> and \<open>0x01000010\<close>.
\<close>

theorem plane_update_keeps_descriptor_chain_witness:
  "hwdesc_inv (bound_priv jz4770_soc_info True)
   \<and> hwdesc_inv (ingenic_drm_plane_atomic_update hdr0 gem_addr0 (bound_priv jz4770_soc_info True)
                   (primary_plane plane_full) (crtc_modeset mode_vga))
   \<and> hwdesc_idx (bound_priv jz4770_soc_info True) (primary_plane plane_full) = 1
   \<and> hwdesc_idx (bound_priv jz4770_soc_info True) (overlay_plane plane_full) = 0
   \<and> dma_hwdesc (ingenic_drm_plane_atomic_update hdr0 gem_addr0 (bound_priv jz4770_soc_info True)
                   (primary_plane plane_full) (crtc_modeset mode_vga)) 1
       = \<lparr>next = 0x01000010, addr = 0x02000000, desc_id = 0xdeadbabe, cmd = 0x40025800\<rparr>
   \<and> dma_hwdesc (ingenic_drm_plane_atomic_update hdr0 gem_addr0 (bound_priv jz4770_soc_info True)
                   (primary_plane plane_full) (crtc_modeset mode_vga)) 0
       = \<lparr>next = 0x01000000, addr = 0, desc_id = 0xdeafbead, cmd = 0\<rparr>"
  using plane_update_keeps_descriptor_chain [of "bound_priv jz4770_soc_info True" hdr0
          gem_addr0 "primary_plane plane_full" "crtc_modeset mode_vga"]
  by (simp add: plane_update_hwdesc hwdesc_inv_def hwdesc_idx_def bound_priv_def
        init_hwdesc_def Let_def fresh_priv_def jz4770_soc_info_def primary_plane_def
        overlay_plane_def plane_full_def fb_rgb565_def gem_addr0_def hdr0_def)

end
